theory Spec2Isabelle
  imports Main
begin

section \<open>Deserialized YAML values and the Python operations used on them\<close>

text \<open>
  Both scripts work on what \<^verbatim>\<open>yaml.safe_load\<close> returns: null, booleans, integers,
  floats, strings, sequences and mappings. A mapping is an association list in insertion
  order; the scripts only ever look up string keys. A string is a list of characters,
  read as code points below 256. A float is kept as mantissa and binary exponent, or as
  one of the special values; only its truth value and its type name are ever used.
\<close>

datatype pyfloat = Finite int int | Inf bool | NaN

datatype yaml =
    YNull
  | YBool bool
  | YInt int
  | YFloat pyfloat
  | YStr string
  | YList "yaml list"
  | YDict "(yaml \<times> yaml) list"

text \<open>
  The exceptions that the code below can raise. \<^verbatim>\<open>ValueError\<close> is what printing an integer
  of too many digits raises, \<^verbatim>\<open>RecursionError\<close> what a call raises when the interpreter's
  recursion limit is reached.
\<close>

datatype py_exn = TypeError | AttributeError | KeyError | ValueError | RecursionError

text \<open>Python truth value (\<^verbatim>\<open>if x\<close>, \<^verbatim>\<open>not x\<close>).\<close>

fun truthy :: "yaml \<Rightarrow> bool" where
  "truthy YNull = False"
| "truthy (YBool b) = b"
| "truthy (YInt i) = (i \<noteq> 0)"
| "truthy (YFloat (Finite m e)) = (m \<noteq> 0)"
| "truthy (YFloat (Inf s)) = True"
| "truthy (YFloat NaN) = True"
| "truthy (YStr s) = (s \<noteq> [])"
| "truthy (YList xs) = (xs \<noteq> [])"
| "truthy (YDict kvs) = (kvs \<noteq> [])"

text \<open>\<^verbatim>\<open>type(x).__name__\<close>\<close>

fun type_name :: "yaml \<Rightarrow> string" where
  "type_name YNull = ''NoneType''"
| "type_name (YBool b) = ''bool''"
| "type_name (YInt i) = ''int''"
| "type_name (YFloat f) = ''float''"
| "type_name (YStr s) = ''str''"
| "type_name (YList xs) = ''list''"
| "type_name (YDict kvs) = ''dict''"

text \<open>\<^verbatim>\<open>isinstance(x, dict)\<close>, \<^verbatim>\<open>isinstance(x, list)\<close>, \<^verbatim>\<open>isinstance(x, bool)\<close> and
  \<^verbatim>\<open>isinstance(x, int)\<close>; in Python \<^verbatim>\<open>bool\<close> is a subclass of \<^verbatim>\<open>int\<close>.\<close>

fun is_dict :: "yaml \<Rightarrow> bool" where
  "is_dict (YDict kvs) = True"
| "is_dict _ = False"

fun is_list :: "yaml \<Rightarrow> bool" where
  "is_list (YList xs) = True"
| "is_list _ = False"

fun is_bool :: "yaml \<Rightarrow> bool" where
  "is_bool (YBool b) = True"
| "is_bool _ = False"

fun is_int :: "yaml \<Rightarrow> bool" where
  "is_int (YInt i) = True"
| "is_int (YBool b) = True"
| "is_int _ = False"

text \<open>The integer an \<^verbatim>\<open>int\<close> instance compares as: \<^verbatim>\<open>True\<close> is 1, \<^verbatim>\<open>False\<close> is 0.\<close>

fun int_val :: "yaml \<Rightarrow> int" where
  "int_val (YInt i) = i"
| "int_val (YBool b) = (if b then 1 else 0)"
| "int_val _ = 0"

text \<open>Lookup of a string key in a mapping.\<close>

fun dict_lookup :: "yaml \<Rightarrow> string \<rightharpoonup> yaml" where
  "dict_lookup (YDict kvs) k = map_of kvs (YStr k)"
| "dict_lookup _ k = None"

text \<open>\<^verbatim>\<open>k in s\<close> for two strings is the substring test.\<close>

fun is_substr :: "string \<Rightarrow> string \<Rightarrow> bool" where
  "is_substr k [] = (k = [])"
| "is_substr k (c # cs) = (take (length k) (c # cs) = k \<or> is_substr k cs)"

text \<open>\<^verbatim>\<open>k in obj\<close> for a string \<^verbatim>\<open>k\<close>: key test on a mapping, substring test on a string,
  element test on a sequence, \<^verbatim>\<open>TypeError\<close> on everything else.\<close>

fun py_contains :: "string \<Rightarrow> yaml \<Rightarrow> py_exn + bool" where
  "py_contains k (YDict kvs) = Inr (map_of kvs (YStr k) \<noteq> None)"
| "py_contains k (YStr s) = Inr (is_substr k s)"
| "py_contains k (YList xs) = Inr (YStr k \<in> set xs)"
| "py_contains k _ = Inl TypeError"

text \<open>\<^verbatim>\<open>obj[k]\<close> for a string \<^verbatim>\<open>k\<close>.\<close>

fun py_getitem :: "yaml \<Rightarrow> string \<Rightarrow> py_exn + yaml" where
  "py_getitem (YDict kvs) k = (case map_of kvs (YStr k) of None \<Rightarrow> Inl KeyError | Some v \<Rightarrow> Inr v)"
| "py_getitem _ k = Inl TypeError"

text \<open>\<^verbatim>\<open>obj.get(k, default)\<close>: only mappings have the method.\<close>

fun py_get :: "yaml \<Rightarrow> string \<Rightarrow> yaml \<Rightarrow> py_exn + yaml" where
  "py_get (YDict kvs) k d = (case map_of kvs (YStr k) of None \<Rightarrow> Inr d | Some v \<Rightarrow> Inr v)"
| "py_get _ k d = Inl AttributeError"

text \<open>\<^verbatim>\<open>len(x)\<close>\<close>

fun py_len :: "yaml \<Rightarrow> py_exn + nat" where
  "py_len (YStr s) = Inr (length s)"
| "py_len (YList xs) = Inr (length xs)"
| "py_len (YDict kvs) = Inr (length kvs)"
| "py_len _ = Inl TypeError"

subsection \<open>Strings\<close>

text \<open>\<^verbatim>\<open>str.split('.')\<close>: always at least one part.\<close>

fun split_on :: "char \<Rightarrow> string \<Rightarrow> string list" where
  "split_on c [] = [[]]"
| "split_on c (x # xs) =
     (if x = c then [] # split_on c xs
      else (case split_on c xs of [] \<Rightarrow> [[x]] | p # ps \<Rightarrow> (x # p) # ps))"

text \<open>\<^verbatim>\<open>sep.join(parts)\<close>\<close>

fun join :: "string \<Rightarrow> string list \<Rightarrow> string" where
  "join sep [] = []"
| "join sep [x] = x"
| "join sep (x # y # ys) = x @ sep @ join sep (y # ys)"

text \<open>The characters \<^verbatim>\<open>str.strip()\<close> removes, among the code points below 256.\<close>

definition py_isspace :: "char \<Rightarrow> bool" where
  "py_isspace c \<longleftrightarrow> c \<in> set [CHR 0x09, CHR 0x0A, CHR 0x0B, CHR 0x0C, CHR 0x0D,
     CHR 0x1C, CHR 0x1D, CHR 0x1E, CHR 0x1F, CHR 0x20, CHR 0x85, CHR 0xA0]"

definition py_strip :: "string \<Rightarrow> string" where
  "py_strip s = rev (dropWhile py_isspace (rev (dropWhile py_isspace s)))"

text \<open>Decimal text of an integer, as \<^verbatim>\<open>str(n)\<close> and the f-strings produce it.\<close>

fun str_nat :: "nat \<Rightarrow> string" where
  "str_nat n =
     (if n < 10 then [''0123456789'' ! n]
      else str_nat (n div 10) @ [''0123456789'' ! (n mod 10)])"

declare str_nat.simps [simp del]

definition str_int :: "int \<Rightarrow> string" where
  "str_int i = (if i < 0 then CHR ''-'' # str_nat (nat (- i)) else str_nat (nat i))"

text \<open>
  Since Python 3.11 the conversion of an integer to decimal text raises \<^verbatim>\<open>ValueError\<close> when
  the text would have more digits than \<^verbatim>\<open>sys.int_max_str_digits\<close>, 4300 by default. Such
  an integer can be in a document: YAML reads a hexadecimal literal of any length.
\<close>

definition int_max_str_digits :: nat where
  "int_max_str_digits = 4300"

definition int_too_long :: "int \<Rightarrow> bool" where
  "int_too_long i \<longleftrightarrow> int_max_str_digits < length (str_nat (nat \<bar>i\<bar>))"

text \<open>
  \<^verbatim>\<open>str(x)\<close>, which the f-strings apply to an interpolated value. On floats, sequences
  and mappings it is Python's \<^verbatim>\<open>repr\<close>, which is not part of the repository: it is the
  parameter \<open>repr_of\<close>, and it may raise too (a sequence can hold an integer that is too
  long).
\<close>

fun py_str :: "(yaml \<Rightarrow> py_exn + string) \<Rightarrow> yaml \<Rightarrow> py_exn + string" where
  "py_str repr_of YNull = Inr ''None''"
| "py_str repr_of (YBool b) = Inr (if b then ''True'' else ''False'')"
| "py_str repr_of (YInt i) = (if int_too_long i then Inl ValueError else Inr (str_int i))"
| "py_str repr_of (YStr s) = Inr s"
| "py_str repr_of v = repr_of v"

section \<open>Schema validation (validate-schema.py)\<close>

definition REQUIRED_FIELDS :: "string list" where
  "REQUIRED_FIELDS = [
     ''operation.id'',
     ''operation.name'',
     ''operation.description'',
     ''operation.capability'',
     ''operation.operation_mode'',
     ''operation.resource_type'',
     ''operation.duration.expected'',
     ''operation.duration.timeout'',
     ''operation.duration.type'',
     ''operation.template.type'',
     ''operation.template.command'']"

definition VALID_OPERATION_MODES :: "string list" where
  "VALID_OPERATION_MODES = [
     ''create'', ''configure'', ''validate'', ''update'', ''delete'', ''read'',
     ''modify'', ''adopt'', ''assign'', ''verify'', ''add'', ''remove'', ''drain'']"

definition VALID_DURATION_TYPES :: "string list" where
  "VALID_DURATION_TYPES = [''FAST'', ''NORMAL'', ''WAIT'', ''LONG'']"

definition VALID_CAPABILITIES :: "string list" where
  "VALID_CAPABILITIES = [
     ''networking'', ''storage'', ''identity'', ''compute'', ''avd'', ''management'',
     ''test-capability'']"

definition VALID_TEMPLATE_TYPES :: "string list" where
  "VALID_TEMPLATE_TYPES = [
     ''powershell-local'', ''powershell-remote'', ''powershell-vm-command'',
     ''azure-cli'', ''bash'', ''bash-script'']"

definition OPTIONAL_BOOLEAN_FIELDS :: "string list" where
  "OPTIONAL_BOOLEAN_FIELDS = [''validation.enabled'', ''idempotency.enabled'', ''rollback.enabled'']"

text \<open>
  \<^verbatim>\<open>get_nested_value\<close>: walk the parts of the dotted path, returning the value and
  whether it exists. \<open>dict_lookup\<close> is \<open>None\<close> both when \<open>current\<close> is not a mapping
  and when the part is not one of its keys.
\<close>

fun walk_parts :: "string list \<Rightarrow> yaml \<Rightarrow> yaml \<times> bool" where
  "walk_parts [] current = (current, True)"
| "walk_parts (part # parts) current =
     (case dict_lookup current part of
        None \<Rightarrow> (YNull, False)
      | Some v \<Rightarrow> walk_parts parts v)"

definition get_nested_value :: "yaml \<Rightarrow> string \<Rightarrow> yaml \<times> bool" where
  "get_nested_value data path = walk_parts (split_on CHR ''.'' path) data"

text \<open>
  The body of \<^verbatim>\<open>validate_operation\<close> appends messages to \<^verbatim>\<open>errors\<close> and may raise
  part-way; the messages appended before the exception stay in the list. A piece of the
  body is therefore the messages it appends, together with the exception that ended it,
  if any.
\<close>

type_synonym outcome = "string list \<times> py_exn option"

definition andthen :: "outcome \<Rightarrow> outcome \<Rightarrow> outcome" where
  "andthen a b = (case snd a of Some e \<Rightarrow> a | None \<Rightarrow> (fst a @ fst b, snd b))"

text \<open>\<^verbatim>\<open>if cond: body\<close> where evaluating the condition may raise.\<close>

definition when_true :: "py_exn + bool \<Rightarrow> outcome \<Rightarrow> outcome" where
  "when_true c body = (case c of Inl e \<Rightarrow> ([], Some e) | Inr b \<Rightarrow> (if b then body else ([], None)))"

text \<open>\<^verbatim>\<open>x = expr\<close> followed by statements using \<^verbatim>\<open>x\<close>, where the expression may raise.\<close>

definition with_value :: "py_exn + yaml \<Rightarrow> (yaml \<Rightarrow> outcome) \<Rightarrow> outcome" where
  "with_value r body = (case r of Inl e \<Rightarrow> ([], Some e) | Inr v \<Rightarrow> body v)"

text \<open>An f-string that interpolates a value: forming the text of the value may raise.\<close>

definition with_text :: "py_exn + string \<Rightarrow> (string \<Rightarrow> outcome) \<Rightarrow> outcome" where
  "with_text r body = (case r of Inl e \<Rightarrow> ([], Some e) | Inr t \<Rightarrow> body t)"

text \<open>The tail of the four enum messages: \<^verbatim>\<open>'{v}' (must be one of: {', '.join(allowed)})\<close>,
  for the text \<open>t\<close> of the value.\<close>

definition quoted_must_be_one_of :: "string \<Rightarrow> string list \<Rightarrow> string" where
  "quoted_must_be_one_of t allowed =
     [CHR 0x27] @ t @ [CHR 0x27] @ '' (must be one of: '' @ join '', '' allowed @ '')''"

definition check_required :: "yaml \<Rightarrow> string list" where
  "check_required data = concat (map (\<lambda>field_path.
     (case get_nested_value data field_path of (v, ex) \<Rightarrow>
        if \<not> ex then [''Missing required field: '' @ field_path]
        else if v = YNull \<or> (case v of YStr s \<Rightarrow> py_strip s = [] | _ \<Rightarrow> False)
          then [''Empty value for required field: '' @ field_path]
        else [])) REQUIRED_FIELDS)"

definition check_operation_mode :: "(yaml \<Rightarrow> py_exn + string) \<Rightarrow> yaml \<Rightarrow> outcome" where
  "check_operation_mode repr_of operation =
     when_true (py_contains ''operation_mode'' operation)
       (with_value (py_getitem operation ''operation_mode'') (\<lambda>mode.
          if mode \<notin> set (map YStr VALID_OPERATION_MODES)
          then with_text (py_str repr_of mode) (\<lambda>t.
                 ([''Invalid operation_mode: '' @ quoted_must_be_one_of t VALID_OPERATION_MODES], None))
          else ([], None)))"

definition check_capability :: "(yaml \<Rightarrow> py_exn + string) \<Rightarrow> yaml \<Rightarrow> outcome" where
  "check_capability repr_of operation =
     when_true (py_contains ''capability'' operation)
       (with_value (py_getitem operation ''capability'') (\<lambda>cap.
          if cap \<notin> set (map YStr VALID_CAPABILITIES)
          then with_text (py_str repr_of cap) (\<lambda>t.
                 ([''Invalid capability: '' @ quoted_must_be_one_of t VALID_CAPABILITIES], None))
          else ([], None)))"

definition check_duration_type :: "(yaml \<Rightarrow> py_exn + string) \<Rightarrow> yaml \<Rightarrow> outcome" where
  "check_duration_type repr_of duration =
     when_true (py_contains ''type'' duration)
       (with_value (py_getitem duration ''type'') (\<lambda>dtype.
          if dtype \<notin> set (map YStr VALID_DURATION_TYPES)
          then with_text (py_str repr_of dtype) (\<lambda>t.
                 ([''Invalid duration.type: '' @ quoted_must_be_one_of t VALID_DURATION_TYPES], None))
          else ([], None)))"

definition check_duration_expected :: "(yaml \<Rightarrow> py_exn + string) \<Rightarrow> yaml \<Rightarrow> outcome" where
  "check_duration_expected repr_of duration =
     when_true (py_contains ''expected'' duration)
       (with_value (py_getitem duration ''expected'') (\<lambda>expected.
          if \<not> is_int expected
            then ([''duration.expected must be integer, got: '' @ type_name expected], None)
          else if int_val expected \<le> 0
            then with_text (py_str repr_of expected) (\<lambda>t.
                   ([''duration.expected must be positive, got: '' @ t], None))
          else ([], None)))"

definition check_duration_timeout :: "(yaml \<Rightarrow> py_exn + string) \<Rightarrow> yaml \<Rightarrow> outcome" where
  "check_duration_timeout repr_of duration =
     when_true (py_contains ''timeout'' duration)
       (with_value (py_getitem duration ''timeout'') (\<lambda>timeout.
          if \<not> is_int timeout
            then ([''duration.timeout must be integer, got: '' @ type_name timeout], None)
          else if int_val timeout \<le> 0
            then with_text (py_str repr_of timeout) (\<lambda>t.
                   ([''duration.timeout must be positive, got: '' @ t], None))
          else ([], None)))"

definition check_duration_order :: "(yaml \<Rightarrow> py_exn + string) \<Rightarrow> yaml \<Rightarrow> outcome" where
  "check_duration_order repr_of duration =
     when_true (py_contains ''expected'' duration)
      (when_true (py_contains ''timeout'' duration)
        (with_value (py_getitem duration ''expected'') (\<lambda>expected.
          if \<not> is_int expected then ([], None)
          else with_value (py_getitem duration ''timeout'') (\<lambda>timeout.
            if is_int timeout \<and> int_val timeout < int_val expected
            then with_text (py_str repr_of timeout) (\<lambda>t.
                 with_text (py_str repr_of expected) (\<lambda>e.
                   ([''duration.timeout ('' @ t @ '') should be >= ''
                       @ ''duration.expected ('' @ e @ '')''], None)))
            else ([], None)))))"

definition check_duration :: "(yaml \<Rightarrow> py_exn + string) \<Rightarrow> yaml \<Rightarrow> outcome" where
  "check_duration repr_of operation =
     when_true (py_contains ''duration'' operation)
       (with_value (py_getitem operation ''duration'') (\<lambda>duration.
          andthen (check_duration_type repr_of duration)
         (andthen (check_duration_expected repr_of duration)
         (andthen (check_duration_timeout repr_of duration)
                  (check_duration_order repr_of duration)))))"

definition check_template :: "(yaml \<Rightarrow> py_exn + string) \<Rightarrow> yaml \<Rightarrow> outcome" where
  "check_template repr_of operation =
     when_true (py_contains ''template'' operation)
       (with_value (py_getitem operation ''template'') (\<lambda>template.
          when_true (py_contains ''type'' template)
            (with_value (py_getitem template ''type'') (\<lambda>ttype.
               if ttype \<notin> set (map YStr VALID_TEMPLATE_TYPES)
               then with_text (py_str repr_of ttype) (\<lambda>t.
                      ([''Invalid template.type: '' @ quoted_must_be_one_of t VALID_TEMPLATE_TYPES], None))
               else ([], None)))))"

definition check_optional_booleans :: "yaml \<Rightarrow> string list" where
  "check_optional_booleans data = concat (map (\<lambda>field_path.
     (case get_nested_value data field_path of (v, ex) \<Rightarrow>
        if ex \<and> v \<noteq> YNull \<and> \<not> is_bool v
        then [field_path @ '' must be boolean, got: '' @ type_name v]
        else [])) OPTIONAL_BOOLEAN_FIELDS)"

text \<open>One entry of \<^verbatim>\<open>params[param_type]\<close>, at position \<open>i\<close>.\<close>

definition check_param :: "string \<Rightarrow> nat \<times> yaml \<Rightarrow> string list" where
  "check_param param_type ip = (case ip of (i, param) \<Rightarrow>
     (let here = ''operation.parameters.'' @ param_type @ ''['' @ str_nat i @ '']'' in
      if \<not> is_dict param then [here @ '' must be a dictionary'']
      else (if dict_lookup param ''name'' = None then [here @ '' missing 'name'' @ [CHR 0x27]] else [])
         @ (if dict_lookup param ''type'' = None then [here @ '' missing 'type'' @ [CHR 0x27]] else [])
         @ (if dict_lookup param ''description'' = None then [here @ '' missing 'description'' @ [CHR 0x27]] else [])))"

definition check_param_list :: "yaml \<Rightarrow> string \<Rightarrow> string list" where
  "check_param_list params param_type =
     (case dict_lookup params param_type of
        None \<Rightarrow> []
      | Some (YList ps) \<Rightarrow> concat (map (check_param param_type) (enumerate 0 ps))
      | Some _ \<Rightarrow> [''operation.parameters.'' @ param_type @ '' must be a list''])"

definition check_parameters :: "yaml \<Rightarrow> outcome" where
  "check_parameters operation =
     when_true (py_contains ''parameters'' operation)
       (with_value (py_getitem operation ''parameters'') (\<lambda>params.
          (if \<not> is_dict params then [''operation.parameters must be a dictionary'']
           else (if dict_lookup params ''required'' = None \<and> dict_lookup params ''optional'' = None
                 then [''operation.parameters should have 'required' and/or 'optional' keys'']
                 else [])
              @ concat (map (check_param_list params) [''required'', ''optional'']), None)))"

definition check_rollback_step :: "nat \<times> yaml \<Rightarrow> string list" where
  "check_rollback_step istep = (case istep of (i, step) \<Rightarrow>
     (let here = ''operation.rollback.steps['' @ str_nat i @ '']'' in
      if \<not> is_dict step then [here @ '' must be a dictionary'']
      else (if dict_lookup step ''name'' = None then [here @ '' missing 'name'' @ [CHR 0x27]] else [])
         @ (if dict_lookup step ''command'' = None then [here @ '' missing 'command'' @ [CHR 0x27]] else [])))"

definition check_rollback :: "yaml \<Rightarrow> outcome" where
  "check_rollback operation =
     when_true (py_contains ''rollback'' operation)
       (with_value (py_getitem operation ''rollback'') (\<lambda>rollback.
          (if \<not> is_dict rollback then [''operation.rollback must be a dictionary'']
           else (case dict_lookup rollback ''enabled'' of
                   None \<Rightarrow> []
                 | Some enabled \<Rightarrow>
                     if \<not> truthy enabled then []
                     else (case dict_lookup rollback ''steps'' of
                             None \<Rightarrow> [''operation.rollback.steps required when enabled=true'']
                           | Some (YList steps) \<Rightarrow> concat (map check_rollback_step (enumerate 0 steps))
                           | Some _ \<Rightarrow> [''operation.rollback.steps must be a list''])), None)))"

definition check_checks_list :: "yaml \<Rightarrow> string \<Rightarrow> string list" where
  "check_checks_list validation key =
     (case dict_lookup validation key of
        None \<Rightarrow> []
      | Some v \<Rightarrow> if \<not> is_list v then [''operation.validation.'' @ key @ '' must be a list''] else [])"

definition check_validation :: "yaml \<Rightarrow> outcome" where
  "check_validation operation =
     when_true (py_contains ''validation'' operation)
       (with_value (py_getitem operation ''validation'') (\<lambda>validation.
          (if \<not> is_dict validation then [''operation.validation must be a dictionary'']
           else check_checks_list validation ''checks''
              @ check_checks_list validation ''pre_checks''
              @ check_checks_list validation ''post_checks'', None)))"

text \<open>The statements of the \<^verbatim>\<open>try\<close> block after the emptiness test, in source order.\<close>

definition validate_body :: "(yaml \<Rightarrow> py_exn + string) \<Rightarrow> yaml \<Rightarrow> outcome" where
  "validate_body repr_of data =
     andthen (check_required data, None)
       (with_value (py_get data ''operation'' (YDict [])) (\<lambda>operation.
          andthen (check_operation_mode repr_of operation)
         (andthen (check_capability repr_of operation)
         (andthen (check_duration repr_of operation)
         (andthen (check_template repr_of operation)
         (andthen (check_optional_booleans data, None)
         (andthen (check_parameters operation)
         (andthen (check_rollback operation)
                  (check_validation operation)))))))))"

text \<open>
  The validator on a loaded document. \<open>exn_str\<close> is \<^verbatim>\<open>str(e)\<close> for an exception raised
  inside the body; its text is Python's, not the repository's.
\<close>

definition validate_data :: "(yaml \<Rightarrow> py_exn + string) \<Rightarrow> (py_exn \<Rightarrow> string) \<Rightarrow> yaml \<Rightarrow> string list" where
  "validate_data repr_of exn_str data =
     (if \<not> truthy data then [''Empty or invalid YAML file'']
      else (case validate_body repr_of data of
              (errors, None) \<Rightarrow> errors
            | (errors, Some e) \<Rightarrow> errors @ [''Unexpected error: '' @ exn_str e]))"

text \<open>
  What opening and deserializing a file gives: the document, a \<^verbatim>\<open>yaml.YAMLError\<close>, or
  another exception (an unreadable file, undecodable bytes), each error with its
  \<^verbatim>\<open>str(e)\<close>.
\<close>

datatype load_error = YAMLError string | OtherError string

definition validate_operation ::
  "(yaml \<Rightarrow> py_exn + string) \<Rightarrow> (py_exn \<Rightarrow> string) \<Rightarrow> load_error + yaml \<Rightarrow> string list" where
  "validate_operation repr_of exn_str loaded =
     (case loaded of
        Inl (YAMLError msg) \<Rightarrow> [''YAML parsing error: '' @ msg]
      | Inl (OtherError msg) \<Rightarrow> [''Unexpected error: '' @ msg]
      | Inr data \<Rightarrow> validate_data repr_of exn_str data)"

text \<open>
  \<^verbatim>\<open>main\<close>: what the script sees of the file system is whether the path exists and the
  files it resolves to (the path itself, or the sorted glob), each with the result of
  loading it. A run ends in \<^verbatim>\<open>sys.exit(n)\<close> or in an exception nobody catches, on which
  the interpreter prints the traceback and ends the process with status 1.
\<close>

record run_input =
  path_exists :: bool
  all_files :: "(string \<times> (load_error + yaml)) list"

datatype run_result = Exit nat | Uncaught py_exn

fun exit_status :: "run_result \<Rightarrow> nat" where
  "exit_status (Exit n) = n"
| "exit_status (Uncaught e) = 1"

definition schema_main :: "(yaml \<Rightarrow> py_exn + string) \<Rightarrow> (py_exn \<Rightarrow> string) \<Rightarrow> run_input \<Rightarrow> run_result" where
  "schema_main repr_of exn_str inp =
     (if \<not> path_exists inp then Exit 1
      else if all_files inp = [] then Exit 1
      else (let failed = length (filter (\<lambda>(file_path, loaded).
                    validate_operation repr_of exn_str loaded \<noteq> []) (all_files inp))
            in if failed > 0 then Exit 1 else Exit 0))"

section \<open>Dependency validation (validate-dependencies.py)\<close>

text \<open>
  The record \<^verbatim>\<open>load_operations\<close> stores for an operation (its key \<^verbatim>\<open>'file'\<close> is the
  field \<open>op_file\<close>). \<^verbatim>\<open>operations\<close> is declared
  \<^verbatim>\<open>Dict[str, Dict]\<close>: a dictionary in insertion order whose keys are the ids.
\<close>

record op_data =
  op_file :: string
  name :: yaml
  requires :: yaml
  capability :: yaml

type_synonym operations = "(string \<times> op_data) list"

text \<open>\<^verbatim>\<open>operations[k] = v\<close>: an existing key keeps its position, a new key goes last.\<close>

fun dict_set :: "'k \<Rightarrow> 'v \<Rightarrow> ('k \<times> 'v) list \<Rightarrow> ('k \<times> 'v) list" where
  "dict_set k v [] = [(k, v)]"
| "dict_set k v ((k', v') # rest) =
     (if k' = k then (k', v) # rest else (k', v') # dict_set k v rest)"

text \<open>
  One iteration of the loop of \<^verbatim>\<open>load_operations\<close>, up to the assignment
  \<^verbatim>\<open>operations[op_id] = {...}\<close>: the id and the record to store, or \<open>None\<close> when the file
  is skipped (\<^verbatim>\<open>continue\<close>, or an exception that the \<^verbatim>\<open>except\<close> clause prints).
\<close>

definition load_one :: "string \<Rightarrow> load_error + yaml \<Rightarrow> (yaml \<times> op_data) option" where
  "load_one file_path loaded =
     (case loaded of
        Inl err \<Rightarrow> None
      | Inr data \<Rightarrow>
          if \<not> truthy data then None
          else (case py_contains ''operation'' data of
                  Inl e \<Rightarrow> None
                | Inr present \<Rightarrow>
                    if \<not> present then None
                    else (case py_getitem data ''operation'' of
                            Inl e \<Rightarrow> None
                          | Inr operation \<Rightarrow>
                              (case py_get operation ''id'' YNull of
                                 Inl e \<Rightarrow> None
                               | Inr op_id \<Rightarrow>
                                   if \<not> truthy op_id then None
                                   else (case (py_get operation ''name'' (YStr ''Unknown''),
                                               py_get operation ''requires'' (YList []),
                                               py_get operation ''capability'' (YStr ''unknown'')) of
                                           (Inr n, Inr r, Inr c) \<Rightarrow>
                                             Some (op_id, \<lparr>op_file = file_path, name = n,
                                                           requires = r, capability = c\<rparr>)
                                         | _ \<Rightarrow> None)))))"

text \<open>
  The loop. A list or mapping as id is unhashable: the assignment raises \<^verbatim>\<open>TypeError\<close>,
  which is caught, and the file is skipped. A truthy id that is a number or a boolean
  would become a key that is not a string, which the declared type of \<^verbatim>\<open>operations\<close>
  excludes: there the result is \<open>None\<close>, outside what is modelled.
\<close>

fun load_operations_from ::
  "(string \<times> (load_error + yaml)) list \<Rightarrow> operations \<Rightarrow> operations option" where
  "load_operations_from [] operations = Some operations"
| "load_operations_from ((file_path, loaded) # files) operations =
     (case load_one file_path loaded of
        None \<Rightarrow> load_operations_from files operations
      | Some (YStr op_id, d) \<Rightarrow> load_operations_from files (dict_set op_id d operations)
      | Some (YList xs, d) \<Rightarrow> load_operations_from files operations
      | Some (YDict kvs, d) \<Rightarrow> load_operations_from files operations
      | Some (_, d) \<Rightarrow> None)"

definition load_operations :: "(string \<times> (load_error + yaml)) list \<Rightarrow> operations option" where
  "load_operations files = load_operations_from files []"

text \<open>
  A \<^verbatim>\<open>requires\<close> entry that is a mapping is replaced by its \<^verbatim>\<open>operation\<close> field, or the
  empty string; any other entry is taken as it is.
\<close>

definition resolve_dep :: "yaml \<Rightarrow> yaml" where
  "resolve_dep dep = (case dep of
       YDict kvs \<Rightarrow> (case map_of kvs (YStr ''operation'') of None \<Rightarrow> YStr [] | Some v \<Rightarrow> v)
     | _ \<Rightarrow> dep)"

text \<open>
  \<^verbatim>\<open>dep in all_ids\<close> and \<^verbatim>\<open>dep in operations\<close>: membership in a set or dictionary of
  strings hashes \<^verbatim>\<open>dep\<close>, which raises \<^verbatim>\<open>TypeError\<close> on a list or a mapping; no other
  value than a string equals a string.
\<close>

fun known_id :: "string list \<Rightarrow> yaml \<Rightarrow> py_exn + bool" where
  "known_id ids (YStr s) = Inr (s \<in> set ids)"
| "known_id ids (YList xs) = Inl TypeError"
| "known_id ids (YDict kvs) = Inl TypeError"
| "known_id ids _ = Inr False"

subsection \<open>Missing dependencies\<close>

type_synonym finding = "string \<times> yaml \<times> string"

fun missing_in_requires ::
  "string list \<Rightarrow> string \<Rightarrow> string \<Rightarrow> yaml list \<Rightarrow> finding list \<Rightarrow> py_exn + finding list" where
  "missing_in_requires all_ids op_id f [] missing = Inr missing"
| "missing_in_requires all_ids op_id f (dep # deps) missing =
     (let dep_id = resolve_dep dep in
      if \<not> truthy dep_id then missing_in_requires all_ids op_id f deps missing
      else (case known_id all_ids dep_id of
              Inl e \<Rightarrow> Inl e
            | Inr known \<Rightarrow>
                if \<not> known then missing_in_requires all_ids op_id f deps (missing @ [(op_id, dep_id, f)])
                else missing_in_requires all_ids op_id f deps missing))"

fun missing_in_operations ::
  "string list \<Rightarrow> operations \<Rightarrow> finding list \<Rightarrow> py_exn + finding list" where
  "missing_in_operations all_ids [] missing = Inr missing"
| "missing_in_operations all_ids ((op_id, d) # rest) missing =
     (case requires d of
        YList deps \<Rightarrow>
          (case missing_in_requires all_ids op_id (op_file d) deps missing of
             Inl e \<Rightarrow> Inl e
           | Inr missing' \<Rightarrow> missing_in_operations all_ids rest missing')
      | _ \<Rightarrow> missing_in_operations all_ids rest missing)"

definition find_missing_dependencies :: "operations \<Rightarrow> py_exn + finding list" where
  "find_missing_dependencies operations = missing_in_operations (map fst operations) operations []"

subsection \<open>Circular dependencies\<close>

text \<open>
  The variables the nested function \<^verbatim>\<open>dfs\<close> works on: its arguments \<^verbatim>\<open>visited\<close> and
  \<^verbatim>\<open>rec_stack\<close>, which every call of one search shares, and \<^verbatim>\<open>visited_global\<close> and
  \<^verbatim>\<open>cycles\<close> of the enclosing function. \<open>entered\<close> is not in the source: it records the
  node of every call of \<^verbatim>\<open>dfs\<close>, in call order, so that visits can be counted.
\<close>

record dfs_state =
  visited :: "string set"
  visited_global :: "string set"
  rec_stack :: "string list"
  cycles :: "string list list"
  entered :: "string list"

text \<open>\<^verbatim>\<open>rec_stack.index(dep)\<close>, for a \<^verbatim>\<open>dep\<close> that is in the list.\<close>

definition index_of :: "'a \<Rightarrow> 'a list \<Rightarrow> nat" where
  "index_of x xs = length (takeWhile (\<lambda>y. y \<noteq> x) xs)"

text \<open>\<^verbatim>\<open>operations.get(node, {}).get('requires', [])\<close>\<close>

definition requires_of :: "operations \<Rightarrow> string \<Rightarrow> yaml" where
  "requires_of operations node =
     (case map_of operations node of None \<Rightarrow> YList [] | Some d \<Rightarrow> requires d)"

text \<open>
  \<^verbatim>\<open>dfs\<close> and its loop over \<^verbatim>\<open>requires\<close>. The function calls itself, and the interpreter
  raises \<^verbatim>\<open>RecursionError\<close> on a call that would exceed its recursion limit. The first
  argument is the room left below the current call: the number of further nested calls of
  \<^verbatim>\<open>dfs\<close> that the limit still allows (with the default limit of 1000, a little under
  1000 for a call made by the loop over the keys). The result is \<open>Inl e\<close> when the
  exception \<open>e\<close> leaves the function, \<open>Inr s\<close> when it returns in state \<open>s\<close>.
\<close>

fun dfs :: "nat \<Rightarrow> operations \<Rightarrow> string \<Rightarrow> dfs_state \<Rightarrow> py_exn + dfs_state"
and dfs_requires :: "nat \<Rightarrow> operations \<Rightarrow> yaml list \<Rightarrow> dfs_state \<Rightarrow> py_exn + dfs_state"
where
  "dfs room operations node s =
     (let s1 = s\<lparr>visited := insert node (visited s),
                 visited_global := insert node (visited_global s),
                 rec_stack := rec_stack s @ [node],
                 entered := entered s @ [node]\<rparr>
      in (case (case requires_of operations node of
                  YList deps \<Rightarrow> dfs_requires room operations deps s1
                | _ \<Rightarrow> Inr s1) of
            Inl e \<Rightarrow> Inl e
          | Inr s2 \<Rightarrow> Inr (s2\<lparr>rec_stack := butlast (rec_stack s2)\<rparr>)))"
| "dfs_requires room operations [] s = Inr s"
| "dfs_requires room operations (dep0 # deps) s =
     (let dep = resolve_dep dep0 in
      if \<not> truthy dep then dfs_requires room operations deps s
      else (case known_id (map fst operations) dep of
              Inl e \<Rightarrow> Inl e
            | Inr known \<Rightarrow>
                if \<not> known then dfs_requires room operations deps s
                else (case dep of
                        YStr d \<Rightarrow>
                          if d \<notin> visited s then
                            (case room of
                               0 \<Rightarrow> Inl RecursionError
                             | Suc deeper \<Rightarrow>
                                 (case dfs deeper operations d s of
                                    Inl e \<Rightarrow> Inl e
                                  | Inr s' \<Rightarrow> dfs_requires room operations deps s'))
                          else if d \<in> set (rec_stack s) then
                            (let cycle_start = index_of d (rec_stack s);
                                 cycle = drop cycle_start (rec_stack s) @ [d]
                             in dfs_requires room operations deps
                                  (if cycle \<notin> set (cycles s) then s\<lparr>cycles := cycles s @ [cycle]\<rparr> else s))
                          else dfs_requires room operations deps s
                      | _ \<Rightarrow> dfs_requires room operations deps s)))"

declare dfs.simps [simp del]

text \<open>
  The loop over \<^verbatim>\<open>operations.keys()\<close>: a key not yet in \<^verbatim>\<open>visited_global\<close> starts a
  search with an empty \<^verbatim>\<open>visited\<close> set and an empty \<^verbatim>\<open>rec_stack\<close>. What is carried from
  one search to the next is \<^verbatim>\<open>visited_global\<close> and \<^verbatim>\<open>cycles\<close>; \<open>searches\<close> collects,
  for each search, the nodes it entered. An exception ends the loop and the function.
\<close>

record traversal =
  seen_global :: "string set"
  found_cycles :: "string list list"
  searches :: "string list list"

fun search_roots ::
  "nat \<Rightarrow> operations \<Rightarrow> string list \<Rightarrow> traversal \<Rightarrow> py_exn + traversal" where
  "search_roots room operations [] t = Inr t"
| "search_roots room operations (op_id # ids) t =
     (if op_id \<notin> seen_global t then
        (case dfs room operations op_id
                \<lparr>visited = {}, visited_global = seen_global t, rec_stack = [],
                 cycles = found_cycles t, entered = []\<rparr> of
           Inl e \<Rightarrow> Inl e
         | Inr s \<Rightarrow>
             search_roots room operations ids
               \<lparr>seen_global = visited_global s, found_cycles = cycles s,
                searches = searches t @ [entered s]\<rparr>)
      else search_roots room operations ids t)"

text \<open>The whole traversal, for the room the recursion limit leaves below a first call of
  \<^verbatim>\<open>dfs\<close>, and what \<^verbatim>\<open>detect_circular_dependencies\<close> returns of it.\<close>

definition traverse :: "nat \<Rightarrow> operations \<Rightarrow> py_exn + traversal" where
  "traverse room operations =
     search_roots room operations (map fst operations)
       \<lparr>seen_global = {}, found_cycles = [], searches = []\<rparr>"

definition detect_circular_dependencies :: "nat \<Rightarrow> operations \<Rightarrow> py_exn + string list list" where
  "detect_circular_dependencies room operations =
     (case traverse room operations of
        Inl e \<Rightarrow> Inl e
      | Inr t \<Rightarrow> Inr (found_cycles t))"

subsection \<open>Statistics\<close>

record stats =
  total_operations :: nat
  operations_with_deps :: nat
  total_dependencies :: nat
  max_dependencies :: nat
  most_dependent_op :: "string option"

text \<open>
  The loop of \<^verbatim>\<open>build_dependency_stats\<close>. In \<^verbatim>\<open>requires and len(requires) > 0\<close> the
  length is only taken of a truthy value, and raises \<^verbatim>\<open>TypeError\<close> on a number or a
  boolean.
\<close>

fun stats_loop :: "operations \<Rightarrow> stats \<Rightarrow> py_exn + stats" where
  "stats_loop [] st = Inr st"
| "stats_loop ((op_id, d) # rest) st =
     (if \<not> truthy (requires d) then stats_loop rest st
      else (case py_len (requires d) of
              Inl e \<Rightarrow> Inl e
            | Inr dep_count \<Rightarrow>
                if \<not> dep_count > 0 then stats_loop rest st
                else (let st1 = st\<lparr>operations_with_deps := operations_with_deps st + 1,
                                    total_dependencies := total_dependencies st + dep_count\<rparr>
                      in stats_loop rest
                           (if dep_count > max_dependencies st1
                            then st1\<lparr>max_dependencies := dep_count, most_dependent_op := Some op_id\<rparr>
                            else st1))))"

definition build_dependency_stats :: "operations \<Rightarrow> py_exn + stats" where
  "build_dependency_stats operations =
     stats_loop operations
       \<lparr>total_operations = length operations, operations_with_deps = 0,
        total_dependencies = 0, max_dependencies = 0, most_dependent_op = None\<rparr>"

subsection \<open>The run\<close>

text \<open>
  \<^verbatim>\<open>main\<close> of validate-dependencies.py, for the room the recursion limit leaves to
  \<^verbatim>\<open>dfs\<close>. The missing dependencies are printed through an f-string, which raises on an
  id that is an integer of too many digits. The outer \<open>None\<close> stands for an input outside
  the model (see \<open>load_operations_from\<close>).
\<close>

definition dependencies_main :: "nat \<Rightarrow> run_input \<Rightarrow> run_result option" where
  "dependencies_main room inp =
     (if \<not> path_exists inp then Some (Exit 1)
      else if all_files inp = [] then Some (Exit 1)
      else (case load_operations (all_files inp) of
              None \<Rightarrow> None
            | Some operations \<Rightarrow>
                (case find_missing_dependencies operations of
                   Inl e \<Rightarrow> Some (Uncaught e)
                 | Inr missing_deps \<Rightarrow>
                     if list_ex (\<lambda>(op_id, missing_id, file_path).
                           (case missing_id of YInt i \<Rightarrow> int_too_long i | _ \<Rightarrow> False)) missing_deps
                     then Some (Uncaught ValueError)
                     else
                     (let has_errors = (if missing_deps = [] then False else True) in
                      case detect_circular_dependencies room operations of
                        Inl e \<Rightarrow> Some (Uncaught e)
                      | Inr circular_deps \<Rightarrow>
                          (let has_errors = (if circular_deps = [] then has_errors else True) in
                           case build_dependency_stats operations of
                             Inl e \<Rightarrow> Some (Uncaught e)
                           | Inr st \<Rightarrow> Some (Exit (if has_errors then 1 else 0)))))))"

section \<open>Auxiliary definitions for the proofs\<close>

text \<open>Pieces of the body run one after the other, up to the first that raises.\<close>

fun run_all :: "outcome list \<Rightarrow> outcome" where
  "run_all [] = ([], None)"
| "run_all (b # bs) = andthen b (run_all bs)"

text \<open>The checks of the body that follow the required fields, in source order.\<close>

definition blocks :: "(yaml \<Rightarrow> py_exn + string) \<Rightarrow> yaml \<Rightarrow> yaml \<Rightarrow> outcome list" where
  "blocks repr_of data operation =
     [check_operation_mode repr_of operation, check_capability repr_of operation,
      check_duration repr_of operation, check_template repr_of operation,
      (check_optional_booleans data, None), check_parameters operation,
      check_rollback operation, check_validation operation]"

text \<open>The same with the four checks of the duration block in the place of the block.\<close>

definition blocks_in_duration ::
  "(yaml \<Rightarrow> py_exn + string) \<Rightarrow> yaml \<Rightarrow> yaml \<Rightarrow> yaml \<Rightarrow> outcome list" where
  "blocks_in_duration repr_of data operation duration =
     [check_operation_mode repr_of operation, check_capability repr_of operation,
      check_duration_type repr_of duration, check_duration_expected repr_of duration,
      check_duration_timeout repr_of duration, check_duration_order repr_of duration,
      check_template repr_of operation,
      (check_optional_booleans data, None), check_parameters operation,
      check_rollback operation, check_validation operation]"

text \<open>The messages of an outcome, with the message of the exception handler if it raised.\<close>

definition closing :: "(py_exn \<Rightarrow> string) \<Rightarrow> outcome \<Rightarrow> string list" where
  "closing exn_str out =
     fst out @ (case snd out of None \<Rightarrow> [] | Some e \<Rightarrow> [''Unexpected error: '' @ exn_str e])"

text \<open>
  Stand-ins for Python's \<^verbatim>\<open>repr\<close> and for the text of an exception, used where a
  theorem is instantiated at a concrete document.
\<close>

definition example_repr :: "yaml \<Rightarrow> py_exn + string" where
  "example_repr v = Inr (''<'' @ type_name v @ ''>'')"

fun example_exn_str :: "py_exn \<Rightarrow> string" where
  "example_exn_str TypeError = ''TypeError''"
| "example_exn_str AttributeError = ''AttributeError''"
| "example_exn_str KeyError = ''KeyError''"
| "example_exn_str ValueError = ''ValueError''"
| "example_exn_str RecursionError = ''RecursionError''"

text \<open>
  Whether \<^verbatim>\<open>str(x)\<close> returns; and whether it does on the value at each of the paths of a
  document (a path that is absent gives \<^verbatim>\<open>None\<close>, whose text is formed).
\<close>

definition has_text :: "(yaml \<Rightarrow> py_exn + string) \<Rightarrow> yaml \<Rightarrow> bool" where
  "has_text repr_of v = (case py_str repr_of v of Inr t \<Rightarrow> True | Inl e \<Rightarrow> False)"

definition texts_formed :: "(yaml \<Rightarrow> py_exn + string) \<Rightarrow> yaml \<Rightarrow> string list \<Rightarrow> bool" where
  "texts_formed repr_of data paths =
     list_all (\<lambda>path. has_text repr_of (fst (get_nested_value data path))) paths"

text \<open>An integer of 4301 digits.\<close>

definition huge :: int where
  "huge = 10 ^ 4300"

text \<open>A document with the two numeric duration fields, and its parts.\<close>

definition duration_of :: "yaml \<Rightarrow> yaml \<Rightarrow> yaml" where
  "duration_of e t = YDict [(YStr ''expected'', e), (YStr ''timeout'', t)]"

definition operation_with_duration :: "yaml \<Rightarrow> yaml \<Rightarrow> yaml" where
  "operation_with_duration e t = YDict [(YStr ''duration'', duration_of e t)]"

definition with_duration :: "yaml \<Rightarrow> yaml \<Rightarrow> yaml" where
  "with_duration e t = YDict [(YStr ''operation'', operation_with_duration e t)]"

text \<open>A document with a blank name, a null description and no id.\<close>

definition blank_name :: yaml where
  "blank_name = YDict [(YStr ''operation'', YDict [(YStr ''name'', YStr '' ''), (YStr ''description'', YNull)])]"

text \<open>A document with the four enum fields, and its parts.\<close>

definition enum_duration :: yaml where
  "enum_duration = YDict [(YStr ''type'', YStr ''SLOW'')]"

definition enum_template :: yaml where
  "enum_template = YDict [(YStr ''type'', YInt 7)]"

definition enum_operation :: yaml where
  "enum_operation = YDict [
      (YStr ''operation_mode'', YStr ''bogus''),
      (YStr ''capability'', YStr ''networking''),
      (YStr ''duration'', enum_duration),
      (YStr ''template'', enum_template)]"

definition enum_example :: yaml where
  "enum_example = YDict [(YStr ''operation'', enum_operation)]"

text \<open>A document whose duration is a number, and one whose operation mode is an integer
  of 4301 digits; both have an invalid template type.\<close>

definition broken_duration :: yaml where
  "broken_duration = YDict [(YStr ''operation'', YDict [
      (YStr ''duration'', YInt 5),
      (YStr ''template'', YDict [(YStr ''type'', YStr ''bogus'')])])]"

definition huge_mode_operation :: yaml where
  "huge_mode_operation = YDict [
      (YStr ''operation_mode'', YInt huge),
      (YStr ''template'', YDict [(YStr ''type'', YStr ''bogus'')])]"

definition huge_mode :: yaml where
  "huge_mode = YDict [(YStr ''operation'', huge_mode_operation)]"

text \<open>A document whose duration is only \<^verbatim>\<open>expected: true\<close>.\<close>

definition expected_true :: yaml where
  "expected_true = YDict [(YStr ''operation'', YDict [(YStr ''duration'',
       YDict [(YStr ''expected'', YBool True)])])]"


text \<open>A schema-valid operation, except that its \<^verbatim>\<open>requires\<close> is the number 5.\<close>

definition requires_five :: run_input where
  "requires_five = \<lparr>path_exists = True, all_files = [(''capabilities/x/operations/a.yaml'',
     Inr (YDict [(YStr ''operation'', YDict [
       (YStr ''id'', YStr ''a''),
       (YStr ''name'', YStr ''A''),
       (YStr ''description'', YStr ''an operation''),
       (YStr ''capability'', YStr ''compute''),
       (YStr ''operation_mode'', YStr ''create''),
       (YStr ''resource_type'', YStr ''vm''),
       (YStr ''duration'', YDict [(YStr ''expected'', YInt 10), (YStr ''timeout'', YInt 20),
                                   (YStr ''type'', YStr ''FAST'')]),
       (YStr ''template'', YDict [(YStr ''type'', YStr ''bash''), (YStr ''command'', YStr ''true'')]),
       (YStr ''requires'', YInt 5)])]))]\<rparr>"












text \<open>
  The entries that both checks pass over: a mapping without an \<^verbatim>\<open>operation\<close> field, and a
  value that is not a string and is falsy (null, \<^verbatim>\<open>false\<close>, zero, an empty sequence).
\<close>

fun skipped_shape :: "yaml \<Rightarrow> bool" where
  "skipped_shape (YStr s) = False"
| "skipped_shape (YDict kvs) = (map_of kvs (YStr ''operation'') = None)"
| "skipped_shape v = (\<not> truthy v)"

text \<open>The operations with those entries removed from every \<^verbatim>\<open>requires\<close> sequence.\<close>

definition without_skipped_entries :: "yaml \<Rightarrow> yaml" where
  "without_skipped_entries r =
     (case r of YList deps \<Rightarrow> YList (filter (\<lambda>e. \<not> skipped_shape e) deps)
      | _ \<Rightarrow> r)"

definition without_skipped :: "operations \<Rightarrow> operations" where
  "without_skipped operations =
     map (\<lambda>(op_id, d). (op_id, d\<lparr>requires := without_skipped_entries (requires d)\<rparr>)) operations"

text \<open>Operations with a number, and with a sequence, as \<^verbatim>\<open>requires\<close> entry.\<close>

definition number_entry :: operations where
  "number_entry = [(''A'', \<lparr>op_file = ''a.yaml'', name = YStr ''A'', requires = YList [YInt 5],
                            capability = YStr ''compute''\<rparr>)]"

definition sequence_entry :: operations where
  "sequence_entry = [(''A'', \<lparr>op_file = ''a.yaml'', name = YStr ''A'',
                              requires = YList [YList [YStr ''B'']], capability = YStr ''compute''\<rparr>)]"

definition mixed_entries :: operations where
  "mixed_entries = [
     (''A'', \<lparr>op_file = ''a.yaml'', name = YStr ''A'',
              requires = YList [YNull, YStr ''B'', YDict [(YStr ''note'', YStr ''x'')], YStr ''Z''],
              capability = YStr ''compute''\<rparr>),
     (''B'', \<lparr>op_file = ''b.yaml'', name = YStr ''B'',
              requires = YList [YDict [], YStr ''A'', YBool False], capability = YStr ''compute''\<rparr>)]"





text \<open>The cycle recorded for \<open>d\<close> on the stack, if it is new.\<close>

definition record_cycle :: "string \<Rightarrow> dfs_state \<Rightarrow> dfs_state" where
  "record_cycle d s =
     (let cycle = drop (index_of d (rec_stack s)) (rec_stack s) @ [d]
      in if cycle \<notin> set (cycles s) then s\<lparr>cycles := cycles s @ [cycle]\<rparr> else s)"

text \<open>What holds of the state of one search between two steps.\<close>

definition search_inv :: "operations \<Rightarrow> dfs_state \<Rightarrow> bool" where
  "search_inv operations s \<longleftrightarrow>
     set (entered s) = visited s \<and> distinct (entered s)
     \<and> visited s \<subseteq> set (map fst operations) \<and> visited s \<subseteq> visited_global s"








section \<open>Properties of the schema validator\<close>

lemma fst_andthen: "fst (andthen a b) = fst a @ (case snd a of None \<Rightarrow> fst b | Some e \<Rightarrow> [])"
  by (simp add: andthen_def split: option.splits)

lemma snd_andthen: "snd (andthen a b) = (case snd a of None \<Rightarrow> snd b | Some e \<Rightarrow> Some e)"
  by (simp add: andthen_def split: option.splits)

lemma andthen_unit_left: "andthen ([], None) b = b"
  by (simp add: andthen_def)

lemma andthen_unit_right: "andthen a ([], None) = a"
  by (cases a) (simp add: andthen_def split: option.splits)

lemma andthen_assoc: "andthen (andthen a b) c = andthen a (andthen b c)"
  by (cases a; cases b) (auto simp: andthen_def split: option.splits)

lemma run_all_append: "run_all (xs @ ys) = andthen (run_all xs) (run_all ys)"
  by (induction xs) (simp_all add: andthen_unit_left andthen_assoc)

lemma run_all_nested: "run_all (run_all ys # zs) = run_all (ys @ zs)"
  by (simp add: run_all_append)

lemma in_andthen: "m \<in> set (fst (andthen a b)) \<Longrightarrow> m \<in> set (fst a) \<or> m \<in> set (fst b)"
  by (auto simp: fst_andthen split: option.splits)

lemma in_with_value: "m \<in> set (fst (with_value x f)) \<Longrightarrow> \<exists>v. m \<in> set (fst (f v))"
  by (auto simp: with_value_def split: sum.splits)

lemma in_with_text: "m \<in> set (fst (with_text x f)) \<Longrightarrow> \<exists>t. m \<in> set (fst (f t))"
  by (auto simp: with_text_def split: sum.splits)

lemma in_when_true: "m \<in> set (fst (when_true c body)) \<Longrightarrow> m \<in> set (fst body)"
  by (auto simp: when_true_def split: sum.splits if_splits)

lemma tag_required: "m \<in> set (check_required data) \<Longrightarrow> take 9 m = ''Missing r'' \<or> take 9 m = ''Empty val''"
  by (auto simp: check_required_def split: prod.splits if_splits)

lemma tag_operation_mode: "m \<in> set (fst (check_operation_mode r op)) \<Longrightarrow> take 9 m = ''Invalid o''"
  by (auto simp: check_operation_mode_def dest!: in_when_true in_with_value in_with_text split: if_splits)

lemma tag_capability: "m \<in> set (fst (check_capability r op)) \<Longrightarrow> take 9 m = ''Invalid c''"
  by (auto simp: check_capability_def dest!: in_when_true in_with_value in_with_text split: if_splits)

lemma tag_duration_type: "m \<in> set (fst (check_duration_type r d)) \<Longrightarrow> take 9 m = ''Invalid d''"
  by (auto simp: check_duration_type_def dest!: in_when_true in_with_value in_with_text split: if_splits)

lemma form_duration_expected:
  "m \<in> set (fst (check_duration_expected r d)) \<Longrightarrow>
     (\<exists>s. m = ''duration.expected must be integer, got: '' @ s)
     \<or> (\<exists>s. m = ''duration.expected must be positive, got: '' @ s)"
  by (auto simp: check_duration_expected_def dest!: in_when_true in_with_value in_with_text split: if_splits)

lemma form_duration_timeout:
  "m \<in> set (fst (check_duration_timeout r d)) \<Longrightarrow>
     (\<exists>s. m = ''duration.timeout must be integer, got: '' @ s)
     \<or> (\<exists>s. m = ''duration.timeout must be positive, got: '' @ s)"
  by (auto simp: check_duration_timeout_def dest!: in_when_true in_with_value in_with_text split: if_splits)

lemma form_duration_order:
  "m \<in> set (fst (check_duration_order r d)) \<Longrightarrow> \<exists>s. m = ''duration.timeout ('' @ s"
  by (auto simp: check_duration_order_def dest!: in_when_true in_with_value in_with_text split: if_splits)

lemma tag_duration_expected: "m \<in> set (fst (check_duration_expected r d)) \<Longrightarrow> take 9 m = ''duration.''"
  by (auto dest!: form_duration_expected)

lemma tag_duration_timeout: "m \<in> set (fst (check_duration_timeout r d)) \<Longrightarrow> take 9 m = ''duration.''"
  by (auto dest!: form_duration_timeout)

lemma tag_duration_order: "m \<in> set (fst (check_duration_order r d)) \<Longrightarrow> take 9 m = ''duration.''"
  by (auto dest!: form_duration_order)

lemma tag_duration:
  "m \<in> set (fst (check_duration r op)) \<Longrightarrow> take 9 m = ''Invalid d'' \<or> take 9 m = ''duration.''"
  by (auto simp: check_duration_def
      dest!: in_when_true in_with_value in_andthen
      dest: tag_duration_type tag_duration_expected tag_duration_timeout tag_duration_order)

lemma tag_template: "m \<in> set (fst (check_template r op)) \<Longrightarrow> take 9 m = ''Invalid t''"
  by (auto simp: check_template_def dest!: in_when_true in_with_value in_with_text split: if_splits)

lemma tag_optional_booleans:
  "m \<in> set (check_optional_booleans data) \<Longrightarrow>
     take 9 m = ''validatio'' \<or> take 9 m = ''idempoten'' \<or> take 9 m = ''rollback.''"
  by (auto simp: check_optional_booleans_def OPTIONAL_BOOLEAN_FIELDS_def split: prod.splits if_splits)

lemma tag_param: "m \<in> set (check_param pt ip) \<Longrightarrow> take 9 m = ''operation''"
  by (auto simp: check_param_def Let_def split: prod.splits if_splits)

lemma tag_param_list: "m \<in> set (check_param_list ps pt) \<Longrightarrow> take 9 m = ''operation''"
proof (cases "dict_lookup ps pt")
  case None
  then show "m \<in> set (check_param_list ps pt) \<Longrightarrow> take 9 m = ''operation''"
    by (simp add: check_param_list_def)
next
  case (Some v)
  then show "m \<in> set (check_param_list ps pt) \<Longrightarrow> take 9 m = ''operation''"
    by (cases v) (auto simp: check_param_list_def dest: tag_param)
qed

lemma tag_parameters: "m \<in> set (fst (check_parameters op)) \<Longrightarrow> take 9 m = ''operation''"
  by (auto simp: check_parameters_def dest!: in_when_true in_with_value dest: tag_param_list split: if_splits)

lemma tag_rollback_step: "m \<in> set (check_rollback_step ip) \<Longrightarrow> take 9 m = ''operation''"
  by (auto simp: check_rollback_step_def Let_def split: prod.splits if_splits)

lemma tag_rollback: "m \<in> set (fst (check_rollback op)) \<Longrightarrow> take 9 m = ''operation''"
  by (auto simp: check_rollback_def dest!: in_when_true in_with_value dest: tag_rollback_step
      split: if_splits option.splits yaml.splits)

lemma tag_checks_list: "m \<in> set (check_checks_list v k) \<Longrightarrow> take 9 m = ''operation''"
  by (auto simp: check_checks_list_def split: option.splits if_splits)

lemma tag_validation: "m \<in> set (fst (check_validation op)) \<Longrightarrow> take 9 m = ''operation''"
  by (auto simp: check_validation_def dest!: in_when_true in_with_value dest: tag_checks_list
      split: if_splits)

text \<open>Every message of a check after the required fields begins in one of these ways.\<close>

lemma tag_blocks:
  "b \<in> set (blocks r data op) \<Longrightarrow> m \<in> set (fst b) \<Longrightarrow>
     take 9 m \<in> {''Invalid o'', ''Invalid c'', ''Invalid d'', ''duration.'', ''Invalid t'',
                  ''validatio'', ''idempoten'', ''rollback.'', ''operation''}"
  unfolding blocks_def
  by (auto dest!: tag_operation_mode tag_capability tag_duration tag_template
        tag_optional_booleans tag_parameters tag_rollback tag_validation)

lemma validate_body_blocks:
  "py_get data ''operation'' (YDict []) = Inr op \<Longrightarrow>
   validate_body r data = andthen (check_required data, None) (run_all (blocks r data op))"
  by (simp add: validate_body_def with_value_def blocks_def andthen_unit_right)

lemma validate_data_alt:
  "truthy data \<Longrightarrow> validate_data r x data = closing x (validate_body r data)"
  by (simp add: validate_data_def closing_def split: prod.splits option.splits)

lemma validate_data_blocks:
  "truthy data \<Longrightarrow> py_get data ''operation'' (YDict []) = Inr op \<Longrightarrow>
   validate_data r x data = check_required data @ closing x (run_all (blocks r data op))"
  by (simp add: validate_data_alt validate_body_blocks closing_def fst_andthen snd_andthen)

lemma validate_data_no_operation:
  "truthy data \<Longrightarrow> py_get data ''operation'' (YDict []) = Inl e \<Longrightarrow>
   validate_data r x data = check_required data @ [''Unexpected error: '' @ x e]"
  by (simp add: validate_data_alt validate_body_def with_value_def closing_def fst_andthen snd_andthen)

lemma dict_lookup_Some:
  "dict_lookup d k = Some v \<Longrightarrow>
     is_dict d \<and> truthy d \<and> py_contains k d = Inr True \<and> py_getitem d k = Inr v
     \<and> py_get d k dflt = Inr v"
  by (cases d) auto

lemma dict_lookup_None:
  "is_dict d \<Longrightarrow> dict_lookup d k = None \<Longrightarrow> py_contains k d = Inr False \<and> py_get d k dflt = Inr dflt"
  by (cases d) auto

lemma check_duration_run_all:
  "dict_lookup op ''duration'' = Some dur \<Longrightarrow>
   check_duration r op =
     run_all [check_duration_type r dur, check_duration_expected r dur,
              check_duration_timeout r dur, check_duration_order r dur]"
  by (simp add: check_duration_def when_true_def with_value_def dict_lookup_Some andthen_unit_right)

lemma run_all_blocks_in_duration:
  "dict_lookup op ''duration'' = Some dur \<Longrightarrow>
   run_all (blocks r data op) = run_all (blocks_in_duration r data op dur)"
proof -
  assume d: "dict_lookup op ''duration'' = Some dur"
  have "blocks r data op =
          [check_operation_mode r op, check_capability r op]
          @ run_all [check_duration_type r dur, check_duration_expected r dur,
              check_duration_timeout r dur, check_duration_order r dur]
          # [check_template r op, (check_optional_booleans data, None), check_parameters op,
             check_rollback op, check_validation op]"
    by (simp add: blocks_def check_duration_run_all [OF d])
  then have "run_all (blocks r data op) =
          andthen (run_all [check_operation_mode r op, check_capability r op])
            (run_all ([check_duration_type r dur, check_duration_expected r dur,
              check_duration_timeout r dur, check_duration_order r dur]
             @ [check_template r op, (check_optional_booleans data, None), check_parameters op,
                check_rollback op, check_validation op]))"
    by (simp only: run_all_append run_all_nested)
  also have "\<dots> = run_all (blocks_in_duration r data op dur)"
    by (simp add: blocks_in_duration_def run_all_append [symmetric] del: run_all.simps)
  finally show ?thesis .
qed

lemma tag_blocks_in_duration:
  "b \<in> set (blocks_in_duration r data op dur) \<Longrightarrow> m \<in> set (fst b) \<Longrightarrow>
     take 9 m \<in> {''Invalid o'', ''Invalid c'', ''Invalid d'', ''duration.'', ''Invalid t'',
                  ''validatio'', ''idempoten'', ''rollback.'', ''operation''}"
  unfolding blocks_in_duration_def
  by (auto dest!: tag_operation_mode tag_capability tag_duration_type tag_duration_expected
        tag_duration_timeout tag_duration_order tag_template
        tag_optional_booleans tag_parameters tag_rollback tag_validation)

lemma filter_none: "(\<And>m. m \<in> set xs \<Longrightarrow> \<not> P m) \<Longrightarrow> filter P xs = []"
  by (induction xs) auto

lemma filter_all: "(\<And>m. m \<in> set xs \<Longrightarrow> P m) \<Longrightarrow> filter P xs = xs"
  by (induction xs) auto

lemma take_shorter: "k \<le> n \<Longrightarrow> take n m = p \<Longrightarrow> take k m = take k p"
  by (auto simp: min_def)

text \<open>The messages of one check among the messages of a run, when no check before it
  raises and no other check gives a message of its kind.\<close>

lemma filter_run_all_none:
  "list_all (\<lambda>b. filter P (fst b) = []) bs \<Longrightarrow> filter P (fst (run_all bs)) = []"
  by (induction bs) (auto simp: fst_andthen split: option.splits)

lemma filter_closing_target:
  assumes "list_all (\<lambda>b. snd b = None \<and> filter P (fst b) = []) before"
    and "list_all (\<lambda>b. filter P (fst b) = []) after"
    and "\<And>s. \<not> P (''Unexpected error: '' @ s)"
  shows "filter P (closing x (run_all (before @ target # after))) = filter P (fst target)"
  using assms(1)
proof (induction before)
  case Nil
  have "filter P (fst (run_all after)) = []"
    by (rule filter_run_all_none [OF assms(2)])
  then show ?case
    using assms(3) by (auto simp: closing_def fst_andthen snd_andthen split: option.splits)
next
  case (Cons b before)
  then have b: "snd b = None" "filter P (fst b) = []"
    and ih: "filter P (closing x (run_all (before @ target # after))) = filter P (fst target)"
    by simp_all
  have "closing x (run_all ((b # before) @ target # after))
          = fst b @ closing x (run_all (before @ target # after))"
    using b(1) by (simp add: closing_def fst_andthen snd_andthen)
  then show ?case using b(2) ih by simp
qed

lemma filter_closing_none:
  assumes "list_all (\<lambda>b. filter P (fst b) = []) bs" and "\<And>s. \<not> P (''Unexpected error: '' @ s)"
  shows "filter P (closing x (run_all bs)) = []"
  using filter_run_all_none [OF assms(1)] assms(2)
  by (auto simp: closing_def split: option.splits)

lemma in_run_all: "m \<in> set (fst (run_all bs)) \<Longrightarrow> \<exists>b\<in>set bs. m \<in> set (fst b)"
  by (induction bs) (auto dest!: in_andthen)

lemma filter_closing_prefix:
  assumes "list_all (\<lambda>b. filter P (fst b) = []) after" and "\<And>s. \<not> P (''Unexpected error: '' @ s)"
  shows "filter P (closing x (run_all (xs @ after))) = filter P (fst (run_all xs))"
  using filter_run_all_none [OF assms(1)] assms(2)
  by (auto simp: closing_def run_all_append fst_andthen snd_andthen split: option.splits)

lemma filter_closing_before:
  assumes "list_all (\<lambda>b. filter P (fst b) = []) before" and "\<And>s. \<not> P (''Unexpected error: '' @ s)"
  shows "filter P (closing x (run_all (before @ rest))) =
           (if list_all (\<lambda>b. snd b = None) before then filter P (closing x (run_all rest)) else [])"
  using assms(1)
proof (induction before)
  case Nil
  then show ?case by simp
next
  case (Cons b before)
  then have b: "filter P (fst b) = []"
    and ih: "filter P (closing x (run_all (before @ rest))) =
           (if list_all (\<lambda>b. snd b = None) before then filter P (closing x (run_all rest)) else [])"
    by simp_all
  show ?case
  proof (cases "snd b")
    case None
    then have "closing x (run_all ((b # before) @ rest)) = fst b @ closing x (run_all (before @ rest))"
      by (simp add: closing_def fst_andthen snd_andthen)
    then show ?thesis using b ih None by simp
  next
    case (Some e)
    then have "closing x (run_all ((b # before) @ rest)) = fst b @ [''Unexpected error: '' @ x e]"
      by (simp add: closing_def fst_andthen snd_andthen)
    then show ?thesis using b Some assms(2) by simp
  qed
qed

text \<open>Presence of a dotted path, part by part.\<close>

lemma walk2:
  "walk_parts [a, b] data = (v, True) \<longleftrightarrow>
     (\<exists>x. dict_lookup data a = Some x \<and> dict_lookup x b = Some v)"
  by (auto split: option.splits)

lemma walk3:
  "walk_parts [a, b, c] data = (v, True) \<longleftrightarrow>
     (\<exists>x y. dict_lookup data a = Some x \<and> dict_lookup x b = Some y \<and> dict_lookup y c = Some v)"
  by (auto split: option.splits)

lemma split_paths:
  "split_on CHR ''.'' ''operation.duration.expected'' = [''operation'', ''duration'', ''expected'']"
  "split_on CHR ''.'' ''operation.duration.timeout'' = [''operation'', ''duration'', ''timeout'']"
  "split_on CHR ''.'' ''operation.duration.type'' = [''operation'', ''duration'', ''type'']"
  "split_on CHR ''.'' ''operation.template.type'' = [''operation'', ''template'', ''type'']"
  "split_on CHR ''.'' ''operation.duration'' = [''operation'', ''duration'']"
  "split_on CHR ''.'' ''operation.operation_mode'' = [''operation'', ''operation_mode'']"
  "split_on CHR ''.'' ''operation.capability'' = [''operation'', ''capability'']"
  by simp_all


lemma presence3:
  "get_nested_value data ''operation.duration.expected'' = (v, True) \<longleftrightarrow>
     (\<exists>op dur. dict_lookup data ''operation'' = Some op \<and> dict_lookup op ''duration'' = Some dur
        \<and> dict_lookup dur ''expected'' = Some v)"
  "get_nested_value data ''operation.duration.timeout'' = (v, True) \<longleftrightarrow>
     (\<exists>op dur. dict_lookup data ''operation'' = Some op \<and> dict_lookup op ''duration'' = Some dur
        \<and> dict_lookup dur ''timeout'' = Some v)"
  "get_nested_value data ''operation.duration.type'' = (v, True) \<longleftrightarrow>
     (\<exists>op dur. dict_lookup data ''operation'' = Some op \<and> dict_lookup op ''duration'' = Some dur
        \<and> dict_lookup dur ''type'' = Some v)"
  "get_nested_value data ''operation.template.type'' = (v, True) \<longleftrightarrow>
     (\<exists>op t. dict_lookup data ''operation'' = Some op \<and> dict_lookup op ''template'' = Some t
        \<and> dict_lookup t ''type'' = Some v)"
  unfolding get_nested_value_def split_paths walk3 by blast+

lemma presence2:
  "get_nested_value data ''operation.duration'' = (v, True) \<longleftrightarrow>
     (\<exists>op. dict_lookup data ''operation'' = Some op \<and> dict_lookup op ''duration'' = Some v)"
  "get_nested_value data ''operation.operation_mode'' = (v, True) \<longleftrightarrow>
     (\<exists>op. dict_lookup data ''operation'' = Some op \<and> dict_lookup op ''operation_mode'' = Some v)"
  "get_nested_value data ''operation.capability'' = (v, True) \<longleftrightarrow>
     (\<exists>op. dict_lookup data ''operation'' = Some op \<and> dict_lookup op ''capability'' = Some v)"
  unfolding get_nested_value_def split_paths walk2 by blast+


lemma rest_not_required:
  assumes "truthy data"
  shows "\<exists>rest. validate_data r x data = check_required data @ rest
           \<and> (\<forall>m\<in>set rest. take 9 m \<noteq> ''Missing r'' \<and> take 9 m \<noteq> ''Empty val'')"
proof (cases "py_get data ''operation'' (YDict [])")
  case (Inl e)
  show ?thesis
    unfolding validate_data_no_operation [OF assms Inl] by auto
next
  case (Inr op)
  have "take 9 m \<noteq> ''Missing r'' \<and> take 9 m \<noteq> ''Empty val''"
    if "m \<in> set (closing x (run_all (blocks r data op)))" for m
  proof (cases "m \<in> set (fst (run_all (blocks r data op)))")
    case True
    then obtain b where "b \<in> set (blocks r data op)" "m \<in> set (fst b)"
      using in_run_all by blast
    from tag_blocks [OF this] show ?thesis by auto
  next
    case False
    then show ?thesis using that by (auto simp: closing_def split: option.splits)
  qed
  then show ?thesis
    unfolding validate_data_blocks [OF assms Inr] by blast
qed

lemma count_list_zero: "(\<And>m. m \<in> set xs \<Longrightarrow> m \<noteq> t) \<Longrightarrow> count_list xs t = 0"
  by (induction xs) auto

lemma count_missing:
  "distinct ps \<Longrightarrow>
   count_list (concat (map (\<lambda>field_path.
     (case g field_path of (v, ex) \<Rightarrow>
        if \<not> ex then [''Missing required field: '' @ field_path]
        else if B v then [''Empty value for required field: '' @ field_path]
        else [])) ps)) (''Missing required field: '' @ p)
   = (if p \<in> set ps \<and> \<not> snd (g p) then 1 else 0)"
  by (induction ps) (auto split: prod.splits)

lemma count_empty:
  "distinct ps \<Longrightarrow>
   count_list (concat (map (\<lambda>field_path.
     (case g field_path of (v, ex) \<Rightarrow>
        if \<not> ex then [''Missing required field: '' @ field_path]
        else if B v then [''Empty value for required field: '' @ field_path]
        else [])) ps)) (''Empty value for required field: '' @ p)
   = (if p \<in> set ps \<and> snd (g p) \<and> B (fst (g p)) then 1 else 0)"
  by (induction ps) (auto split: prod.splits)

lemma required_fields_distinct: "distinct REQUIRED_FIELDS"
  by (simp add: REQUIRED_FIELDS_def)

lemma count_in_validate_data:
  assumes "truthy data" and "take 9 t = ''Missing r'' \<or> take 9 t = ''Empty val''"
  shows "count_list (validate_data r x data) t = count_list (check_required data) t"
proof -
  obtain rest where r: "validate_data r x data = check_required data @ rest"
    "\<forall>m\<in>set rest. take 9 m \<noteq> ''Missing r'' \<and> take 9 m \<noteq> ''Empty val''"
    using rest_not_required [OF assms(1)] by blast
  have "count_list rest t = 0"
    by (rule count_list_zero) (use r(2) assms(2) in auto)
  then show ?thesis by (simp add: r(1))
qed

text \<open>
  Claim C4 (as amended). There are exactly 11 required dotted paths, all different. For a
  document that is not empty (Python-truthy) and each required path: when the path is
  missing, the returned list holds exactly one message \<^verbatim>\<open>Missing required field: {path}\<close>
  and no \<^verbatim>\<open>Empty value\<close> message for it; when the path is present with a null value or
  a string that is blank after trimming, it holds exactly one message
  \<^verbatim>\<open>Empty value for required field: {path}\<close> and no \<^verbatim>\<open>Missing\<close> message for it.
  Nothing is assumed about the other fields.
\<close>

theorem required_fields:
  "length REQUIRED_FIELDS = 11 \<and> distinct REQUIRED_FIELDS \<and>
   (truthy data \<and> p \<in> set REQUIRED_FIELDS \<and> get_nested_value data p = (v, ex) \<longrightarrow>
      (\<not> ex \<longrightarrow>
         count_list (validate_data repr_of exn_str data) (''Missing required field: '' @ p) = 1
         \<and> count_list (validate_data repr_of exn_str data) (''Empty value for required field: '' @ p) = 0) \<and>
      (ex \<and> (v = YNull \<or> (\<exists>s. v = YStr s \<and> py_strip s = [])) \<longrightarrow>
         count_list (validate_data repr_of exn_str data) (''Empty value for required field: '' @ p) = 1
         \<and> count_list (validate_data repr_of exn_str data) (''Missing required field: '' @ p) = 0))"
proof (intro conjI impI)
  show "length REQUIRED_FIELDS = 11" by (simp add: REQUIRED_FIELDS_def)
  show "distinct REQUIRED_FIELDS" by (rule required_fields_distinct)
next
  assume a: "truthy data \<and> p \<in> set REQUIRED_FIELDS \<and> get_nested_value data p = (v, ex)"
  have m0: "count_list (check_required data) (''Missing required field: '' @ p)
            = (if p \<in> set REQUIRED_FIELDS \<and> \<not> snd (get_nested_value data p) then 1 else 0)"
    unfolding check_required_def by (rule count_missing [OF required_fields_distinct])
  have e0: "count_list (check_required data) (''Empty value for required field: '' @ p)
            = (if p \<in> set REQUIRED_FIELDS \<and> snd (get_nested_value data p)
                  \<and> (fst (get_nested_value data p) = YNull
                       \<or> (case fst (get_nested_value data p) of YStr s \<Rightarrow> py_strip s = [] | _ \<Rightarrow> False))
               then 1 else 0)"
    unfolding check_required_def by (rule count_empty [OF required_fields_distinct])
  have m1: "count_list (validate_data repr_of exn_str data) (''Missing required field: '' @ p)
            = count_list (check_required data) (''Missing required field: '' @ p)"
    by (rule count_in_validate_data) (use a in simp_all)
  have e1: "count_list (validate_data repr_of exn_str data) (''Empty value for required field: '' @ p)
            = count_list (check_required data) (''Empty value for required field: '' @ p)"
    by (rule count_in_validate_data) (use a in simp_all)
  have m: "count_list (validate_data repr_of exn_str data) (''Missing required field: '' @ p)
           = (if \<not> ex then 1 else 0)"
    unfolding m1 m0 using a by simp
  have e: "count_list (validate_data repr_of exn_str data) (''Empty value for required field: '' @ p)
           = (if ex \<and> (v = YNull \<or> (case v of YStr s \<Rightarrow> py_strip s = [] | _ \<Rightarrow> False)) then 1 else 0)"
    unfolding e1 e0 using a by simp
  show "\<not> ex \<Longrightarrow> count_list (validate_data repr_of exn_str data) (''Missing required field: '' @ p) = 1"
    using m by simp
  show "\<not> ex \<Longrightarrow> count_list (validate_data repr_of exn_str data) (''Empty value for required field: '' @ p) = 0"
    using e by simp
  show "ex \<and> (v = YNull \<or> (\<exists>s. v = YStr s \<and> py_strip s = [])) \<Longrightarrow>
      count_list (validate_data repr_of exn_str data) (''Empty value for required field: '' @ p) = 1"
    using e by auto
  show "ex \<and> (v = YNull \<or> (\<exists>s. v = YStr s \<and> py_strip s = [])) \<Longrightarrow>
      count_list (validate_data repr_of exn_str data) (''Missing required field: '' @ p) = 0"
    using m by simp
qed

theorem required_fields_witness:
  "truthy blank_name \<and> ''operation.id'' \<in> set REQUIRED_FIELDS
   \<and> get_nested_value blank_name ''operation.id'' = (YNull, False)
   \<and> count_list (validate_data example_repr example_exn_str blank_name)
        ''Missing required field: operation.id'' = 1
   \<and> ''operation.name'' \<in> set REQUIRED_FIELDS
   \<and> get_nested_value blank_name ''operation.name'' = (YStr '' '', True)
   \<and> py_strip '' '' = []
   \<and> count_list (validate_data example_repr example_exn_str blank_name)
        ''Empty value for required field: operation.name'' = 1
   \<and> ''operation.description'' \<in> set REQUIRED_FIELDS
   \<and> get_nested_value blank_name ''operation.description'' = (YNull, True)
   \<and> count_list (validate_data example_repr example_exn_str blank_name)
        ''Empty value for required field: operation.description'' = 1"
  using required_fields [of blank_name "''operation.id''" YNull False example_repr example_exn_str]
    required_fields [of blank_name "''operation.name''" "YStr '' ''" True example_repr example_exn_str]
    required_fields [of blank_name "''operation.description''" YNull True example_repr example_exn_str]
  by (simp add: blank_name_def get_nested_value_def REQUIRED_FIELDS_def py_strip_def py_isspace_def)

text \<open>
  The empty mapping misses every required path, yet the validator returns the single
  message of its emptiness test and no \<^verbatim>\<open>Missing required field\<close> message.
\<close>

theorem required_fields_counterexample:
  "get_nested_value (YDict []) ''operation.id'' = (YNull, False)
   \<and> validate_data example_repr example_exn_str (YDict []) = [''Empty or invalid YAML file'']
   \<and> count_list (validate_data example_repr example_exn_str (YDict []))
        ''Missing required field: operation.id'' = 0"
  by (simp add: get_nested_value_def validate_data_def)


lemma load_operations_from_append:
  "load_operations_from (xs @ ys) acc =
     (case load_operations_from xs acc of None \<Rightarrow> None | Some acc' \<Rightarrow> load_operations_from ys acc')"
proof (induction xs arbitrary: acc)
  case Nil
  then show ?case by simp
next
  case (Cons f xs)
  obtain p l where f: "f = (p, l)" by (cases f)
  show ?case
  proof (cases "load_one p l")
    case None
    then show ?thesis using Cons f by simp
  next
    case (Some r)
    obtain i d where r: "r = (i, d)" by (cases r)
    show ?thesis using Cons f Some r by (cases i) simp_all
  qed
qed

text \<open>
  Claim C7. The validator returns a list of messages for every input: a file whose
  deserialization fails gets exactly one message; an exception raised inside the body is
  turned into one closing message after those already collected, and nothing else. In the
  dependency script a file that fails to load stores nothing, so the loaded operations are
  those of the other files.
\<close>

theorem validator_never_raises:
  "validate_operation repr_of exn_str (Inl (YAMLError msg)) = [''YAML parsing error: '' @ msg]
   \<and> validate_operation repr_of exn_str (Inl (OtherError msg)) = [''Unexpected error: '' @ msg]
   \<and> (truthy data \<and> snd (validate_body repr_of data) = Some e \<longrightarrow>
        validate_operation repr_of exn_str (Inr data)
          = fst (validate_body repr_of data) @ [''Unexpected error: '' @ exn_str e])
   \<and> (truthy data \<and> snd (validate_body repr_of data) = None \<longrightarrow>
        validate_operation repr_of exn_str (Inr data) = fst (validate_body repr_of data))
   \<and> (\<not> truthy data \<longrightarrow>
        validate_operation repr_of exn_str (Inr data) = [''Empty or invalid YAML file''])
   \<and> load_one file_path (Inl err) = None
   \<and> load_operations (before @ (file_path, Inl err) # after) = load_operations (before @ after)"
proof (intro conjI impI)
  show "validate_operation repr_of exn_str (Inl (YAMLError msg)) = [''YAML parsing error: '' @ msg]"
    by (simp add: validate_operation_def)
  show "validate_operation repr_of exn_str (Inl (OtherError msg)) = [''Unexpected error: '' @ msg]"
    by (simp add: validate_operation_def)
  show "truthy data \<and> snd (validate_body repr_of data) = Some e \<Longrightarrow>
        validate_operation repr_of exn_str (Inr data)
          = fst (validate_body repr_of data) @ [''Unexpected error: '' @ exn_str e]"
    by (simp add: validate_operation_def validate_data_alt closing_def)
  show "truthy data \<and> snd (validate_body repr_of data) = None \<Longrightarrow>
        validate_operation repr_of exn_str (Inr data) = fst (validate_body repr_of data)"
    by (simp add: validate_operation_def validate_data_alt closing_def)
  show "\<not> truthy data \<Longrightarrow>
        validate_operation repr_of exn_str (Inr data) = [''Empty or invalid YAML file'']"
    by (simp add: validate_operation_def validate_data_def)
  show l: "load_one file_path (Inl err) = None"
    by (simp add: load_one_def)
  show "load_operations (before @ (file_path, Inl err) # after) = load_operations (before @ after)"
    by (simp add: load_operations_def load_operations_from_append l split: option.splits)
qed

theorem validator_never_raises_witness:
  "truthy (YInt 5) \<and> snd (validate_body example_repr (YInt 5)) = Some AttributeError
   \<and> validate_operation example_repr example_exn_str (Inr (YInt 5))
       = fst (validate_body example_repr (YInt 5)) @ [''Unexpected error: AttributeError'']
   \<and> length (validate_operation example_repr example_exn_str (Inr (YInt 5))) = 12
   \<and> truthy expected_true \<and> snd (validate_body example_repr expected_true) = None
   \<and> validate_operation example_repr example_exn_str (Inr expected_true)
       = fst (validate_body example_repr expected_true)
   \<and> \<not> truthy YNull
   \<and> validate_operation example_repr example_exn_str (Inr YNull) = [''Empty or invalid YAML file'']"
proof -
  have a: "snd (validate_body example_repr (YInt 5)) = Some AttributeError" by code_simp
  have b: "length (fst (validate_body example_repr (YInt 5))) = 11" by code_simp
  have c: "snd (validate_body example_repr expected_true) = None" by code_simp
  have d: "truthy expected_true" by code_simp
  show ?thesis
    using validator_never_raises [of example_repr example_exn_str _ "YInt 5" AttributeError]
      validator_never_raises [of example_repr example_exn_str _ expected_true]
      validator_never_raises [of example_repr example_exn_str _ YNull]
      a b c d
    by simp
qed

lemma refine_filter:
  "(\<And>m. P m \<Longrightarrow> Q m) \<Longrightarrow> filter P xs = filter P (filter Q xs)"
  by (induction xs) auto

lemma duration_expected_present:
  "dict_lookup dur ''expected'' = Some e \<Longrightarrow>
   check_duration_expected r dur =
     (if \<not> is_int e then ([''duration.expected must be integer, got: '' @ type_name e], None)
      else if int_val e \<le> 0
        then (case py_str r e of
                Inl x \<Rightarrow> ([], Some x)
              | Inr t \<Rightarrow> ([''duration.expected must be positive, got: '' @ t], None))
      else ([], None))"
  by (simp add: check_duration_expected_def when_true_def with_value_def with_text_def
        dict_lookup_Some split: sum.splits)

lemma duration_timeout_present:
  "dict_lookup dur ''timeout'' = Some t \<Longrightarrow>
   check_duration_timeout r dur =
     (if \<not> is_int t then ([''duration.timeout must be integer, got: '' @ type_name t], None)
      else if int_val t \<le> 0
        then (case py_str r t of
                Inl x \<Rightarrow> ([], Some x)
              | Inr tt \<Rightarrow> ([''duration.timeout must be positive, got: '' @ tt], None))
      else ([], None))"
  by (simp add: check_duration_timeout_def when_true_def with_value_def with_text_def
        dict_lookup_Some split: sum.splits)

lemma duration_order_present:
  "dict_lookup dur ''expected'' = Some e \<Longrightarrow> dict_lookup dur ''timeout'' = Some t \<Longrightarrow>
   check_duration_order r dur =
     (if is_int e \<and> is_int t \<and> int_val t < int_val e
      then (case py_str r t of
              Inl x \<Rightarrow> ([], Some x)
            | Inr tt \<Rightarrow>
                (case py_str r e of
                   Inl x \<Rightarrow> ([], Some x)
                 | Inr te \<Rightarrow> ([''duration.timeout ('' @ tt @ '') should be >= ''
                                  @ ''duration.expected ('' @ te @ '')''], None)))
      else ([], None))"
  by (simp add: check_duration_order_def when_true_def with_value_def with_text_def
        dict_lookup_Some split: sum.splits)

lemma duration_expected_absent:
  "is_dict dur \<Longrightarrow> dict_lookup dur ''expected'' = None \<Longrightarrow> check_duration_expected r dur = ([], None)"
  by (simp add: check_duration_expected_def when_true_def dict_lookup_None)

lemma duration_timeout_absent:
  "is_dict dur \<Longrightarrow> dict_lookup dur ''timeout'' = None \<Longrightarrow> check_duration_timeout r dur = ([], None)"
  by (simp add: check_duration_timeout_def when_true_def dict_lookup_None)

lemma duration_type_absent:
  "is_dict dur \<Longrightarrow> dict_lookup dur ''type'' = None \<Longrightarrow> check_duration_type r dur = ([], None)"
  by (simp add: check_duration_type_def when_true_def dict_lookup_None)

lemma duration_order_absent:
  "is_dict dur \<Longrightarrow> dict_lookup dur ''expected'' = None \<or> dict_lookup dur ''timeout'' = None \<Longrightarrow>
   check_duration_order r dur = ([], None)"
  by (cases "dict_lookup dur ''expected''")
     (auto simp: check_duration_order_def when_true_def dict_lookup_None dict_lookup_Some)

text \<open>
  The messages that begin with \<^verbatim>\<open>duration.\<close>: those of the three numeric checks, when
  the checks before them have not raised.
\<close>

lemma duration_kind_messages:
  assumes P: "\<And>m. P m \<Longrightarrow> take 9 m = ''duration.''"
    and op: "dict_lookup data ''operation'' = Some op" and dur: "dict_lookup op ''duration'' = Some dur"
  shows "filter P (validate_data r x data) =
     (if snd (check_operation_mode r op) = None \<and> snd (check_capability r op) = None
         \<and> snd (check_duration_type r dur) = None
      then filter P (fst (run_all [check_duration_expected r dur, check_duration_timeout r dur,
                                   check_duration_order r dur]))
      else [])"
proof -
  have o: "py_get data ''operation'' (YDict []) = Inr op" "truthy data"
    using op dict_lookup_Some by blast+
  have u: "\<not> P (''Unexpected error: '' @ s)" for s
    using P [of "''Unexpected error: '' @ s"] by auto
  have 0: "filter P (check_required data) = []"
    by (rule filter_none) (auto dest!: P dest: tag_required)
  have 1: "filter P (fst (check_operation_mode r op)) = []"
    by (rule filter_none) (auto dest!: P dest: tag_operation_mode)
  have 2: "filter P (fst (check_capability r op)) = []"
    by (rule filter_none) (auto dest!: P dest: tag_capability)
  have 3: "filter P (fst (check_duration_type r dur)) = []"
    by (rule filter_none) (auto dest!: P dest: tag_duration_type)
  have 4: "filter P (fst (check_template r op)) = []"
    by (rule filter_none) (auto dest!: P dest: tag_template)
  have 5: "filter P (check_optional_booleans data) = []"
    by (rule filter_none) (auto dest!: P dest: tag_optional_booleans)
  have 6: "filter P (fst (check_parameters op)) = []"
    by (rule filter_none) (auto dest!: P dest: tag_parameters)
  have 7: "filter P (fst (check_rollback op)) = []"
    by (rule filter_none) (auto dest!: P dest: tag_rollback)
  have 8: "filter P (fst (check_validation op)) = []"
    by (rule filter_none) (auto dest!: P dest: tag_validation)
  let ?before = "[check_operation_mode r op, check_capability r op, check_duration_type r dur]"
  let ?mid = "[check_duration_expected r dur, check_duration_timeout r dur, check_duration_order r dur]"
  let ?after = "[check_template r op, (check_optional_booleans data, None), check_parameters op,
                 check_rollback op, check_validation op]"
  have split: "blocks_in_duration r data op dur = ?before @ (?mid @ ?after)"
    by (simp add: blocks_in_duration_def)
  have b: "list_all (\<lambda>b. filter P (fst b) = []) ?before" using 1 2 3 by simp
  have a: "list_all (\<lambda>b. filter P (fst b) = []) ?after" using 4 5 6 7 8 by simp
  have "filter P (validate_data r x data)
          = filter P (closing x (run_all (?before @ (?mid @ ?after))))"
    by (simp only: validate_data_blocks [OF o(2) o(1)] run_all_blocks_in_duration [OF dur]
          split filter_append 0 append_Nil)
  also have "\<dots> = (if list_all (\<lambda>b. snd b = None) ?before
                     then filter P (closing x (run_all (?mid @ ?after))) else [])"
    by (rule filter_closing_before [OF b u])
  also have "filter P (closing x (run_all (?mid @ ?after))) = filter P (fst (run_all ?mid))"
    by (rule filter_closing_prefix [OF a u])
  finally show ?thesis by simp
qed

lemma expected_messages:
  assumes "dict_lookup data ''operation'' = Some op" and "dict_lookup op ''duration'' = Some dur"
    and "dict_lookup dur ''expected'' = Some e"
  shows "filter (\<lambda>m. take 22 m = ''duration.expected must'') (validate_data r x data) =
     (if snd (check_operation_mode r op) = None \<and> snd (check_capability r op) = None
         \<and> snd (check_duration_type r dur) = None
      then (if \<not> is_int e then [''duration.expected must be integer, got: '' @ type_name e]
            else if int_val e \<le> 0
              then (case py_str r e of
                      Inl x \<Rightarrow> []
                    | Inr t \<Rightarrow> [''duration.expected must be positive, got: '' @ t])
            else [])
      else [])"
proof -
  have a: "filter (\<lambda>m. take 22 m = ''duration.expected must'') (fst (check_duration_timeout r dur)) = []"
    by (rule filter_none) (auto dest: form_duration_timeout)
  have b: "filter (\<lambda>m. take 22 m = ''duration.expected must'') (fst (check_duration_order r dur)) = []"
    by (rule filter_none) (auto dest: form_duration_order)
  have c: "filter (\<lambda>m. take 22 m = ''duration.expected must'') (fst (check_duration_expected r dur))
             = fst (check_duration_expected r dur)"
    by (rule filter_all) (auto dest: form_duration_expected)
  have "filter (\<lambda>m. take 22 m = ''duration.expected must'')
          (fst (run_all [check_duration_expected r dur, check_duration_timeout r dur,
                         check_duration_order r dur])) = fst (check_duration_expected r dur)"
    by (simp add: fst_andthen a b c split: option.splits)
  moreover have "take 9 m = ''duration.''" if "take 22 m = ''duration.expected must''" for m
    using take_shorter [of 9 22 m, OF _ that] by simp
  ultimately show ?thesis
    using duration_kind_messages [OF _ assms(1,2), of "\<lambda>m. take 22 m = ''duration.expected must''" r x]
    by (simp add: duration_expected_present [OF assms(3)] split: sum.splits)
qed

lemma timeout_messages:
  assumes "dict_lookup data ''operation'' = Some op" and "dict_lookup op ''duration'' = Some dur"
    and "dict_lookup dur ''timeout'' = Some t"
  shows "filter (\<lambda>m. take 21 m = ''duration.timeout must'') (validate_data r x data) =
     (if snd (check_operation_mode r op) = None \<and> snd (check_capability r op) = None
         \<and> snd (check_duration_type r dur) = None \<and> snd (check_duration_expected r dur) = None
      then (if \<not> is_int t then [''duration.timeout must be integer, got: '' @ type_name t]
            else if int_val t \<le> 0
              then (case py_str r t of
                      Inl x \<Rightarrow> []
                    | Inr tt \<Rightarrow> [''duration.timeout must be positive, got: '' @ tt])
            else [])
      else [])"
proof -
  have a: "filter (\<lambda>m. take 21 m = ''duration.timeout must'') (fst (check_duration_expected r dur)) = []"
    by (rule filter_none) (auto dest: form_duration_expected)
  have b: "filter (\<lambda>m. take 21 m = ''duration.timeout must'') (fst (check_duration_order r dur)) = []"
    by (rule filter_none) (auto dest: form_duration_order)
  have c: "filter (\<lambda>m. take 21 m = ''duration.timeout must'') (fst (check_duration_timeout r dur))
             = fst (check_duration_timeout r dur)"
    by (rule filter_all) (auto dest: form_duration_timeout)
  have "filter (\<lambda>m. take 21 m = ''duration.timeout must'')
          (fst (run_all [check_duration_expected r dur, check_duration_timeout r dur,
                         check_duration_order r dur]))
        = (if snd (check_duration_expected r dur) = None then fst (check_duration_timeout r dur) else [])"
    by (simp add: fst_andthen a b c split: option.splits)
  then have ra: "filter (\<lambda>m. take 21 m = ''duration.timeout must'')
          (fst (run_all [check_duration_expected r dur, check_duration_timeout r dur,
                         check_duration_order r dur]))
        = (if snd (check_duration_expected r dur) = None then fst (check_duration_timeout r dur) else [])" .
  have t9: "take 9 m = ''duration.''" if "take 21 m = ''duration.timeout must''" for m
    using take_shorter [of 9 21 m, OF _ that] by simp
  have f: "fst (check_duration_timeout r dur) =
      (if \<not> is_int t then [''duration.timeout must be integer, got: '' @ type_name t]
            else if int_val t \<le> 0
              then (case py_str r t of
                      Inl x \<Rightarrow> []
                    | Inr tt \<Rightarrow> [''duration.timeout must be positive, got: '' @ tt])
            else [])"
    by (simp add: duration_timeout_present [OF assms(3)] split: sum.splits)
  have k: "filter (\<lambda>m. take 21 m = ''duration.timeout must'') (validate_data r x data) =
     (if snd (check_operation_mode r op) = None \<and> snd (check_capability r op) = None
         \<and> snd (check_duration_type r dur) = None
      then filter (\<lambda>m. take 21 m = ''duration.timeout must'')
             (fst (run_all [check_duration_expected r dur, check_duration_timeout r dur,
                                   check_duration_order r dur]))
      else [])"
    by (rule duration_kind_messages [OF t9 assms(1,2)])
  show ?thesis unfolding k ra f by simp
qed

lemma order_messages:
  assumes "dict_lookup data ''operation'' = Some op" and "dict_lookup op ''duration'' = Some dur"
    and "dict_lookup dur ''expected'' = Some e" and "dict_lookup dur ''timeout'' = Some t"
  shows "filter (\<lambda>m. take 18 m = ''duration.timeout ('') (validate_data r x data) =
     (if snd (check_operation_mode r op) = None \<and> snd (check_capability r op) = None
         \<and> snd (check_duration_type r dur) = None \<and> snd (check_duration_expected r dur) = None
         \<and> snd (check_duration_timeout r dur) = None
      then (if is_int e \<and> is_int t \<and> int_val t < int_val e
            then (case py_str r t of
                    Inl x \<Rightarrow> []
                  | Inr tt \<Rightarrow>
                      (case py_str r e of
                         Inl x \<Rightarrow> []
                       | Inr te \<Rightarrow> [''duration.timeout ('' @ tt @ '') should be >= ''
                                        @ ''duration.expected ('' @ te @ '')'']))
            else [])
      else [])"
proof -
  have a: "filter (\<lambda>m. take 18 m = ''duration.timeout ('') (fst (check_duration_expected r dur)) = []"
    by (rule filter_none) (auto dest: form_duration_expected)
  have b: "filter (\<lambda>m. take 18 m = ''duration.timeout ('') (fst (check_duration_timeout r dur)) = []"
    by (rule filter_none) (auto dest: form_duration_timeout)
  have c: "filter (\<lambda>m. take 18 m = ''duration.timeout ('') (fst (check_duration_order r dur))
             = fst (check_duration_order r dur)"
    by (rule filter_all) (auto dest: form_duration_order)
  have "filter (\<lambda>m. take 18 m = ''duration.timeout ('')
          (fst (run_all [check_duration_expected r dur, check_duration_timeout r dur,
                         check_duration_order r dur]))
        = (if snd (check_duration_expected r dur) = None \<and> snd (check_duration_timeout r dur) = None
           then fst (check_duration_order r dur) else [])"
    by (simp add: fst_andthen a b c split: option.splits)
  then have ra: "filter (\<lambda>m. take 18 m = ''duration.timeout ('')
          (fst (run_all [check_duration_expected r dur, check_duration_timeout r dur,
                         check_duration_order r dur]))
        = (if snd (check_duration_expected r dur) = None \<and> snd (check_duration_timeout r dur) = None
           then fst (check_duration_order r dur) else [])" .
  have t9: "take 9 m = ''duration.''" if "take 18 m = ''duration.timeout (''" for m
    using take_shorter [of 9 18 m, OF _ that] by simp
  have f: "fst (check_duration_order r dur) =
      (if is_int e \<and> is_int t \<and> int_val t < int_val e
            then (case py_str r t of
                    Inl x \<Rightarrow> []
                  | Inr tt \<Rightarrow>
                      (case py_str r e of
                         Inl x \<Rightarrow> []
                       | Inr te \<Rightarrow> [''duration.timeout ('' @ tt @ '') should be >= ''
                                        @ ''duration.expected ('' @ te @ '')'']))
            else [])"
    by (simp add: duration_order_present [OF assms(3,4)] split: sum.splits)
  have k: "filter (\<lambda>m. take 18 m = ''duration.timeout ('') (validate_data r x data) =
     (if snd (check_operation_mode r op) = None \<and> snd (check_capability r op) = None
         \<and> snd (check_duration_type r dur) = None
      then filter (\<lambda>m. take 18 m = ''duration.timeout ('')
             (fst (run_all [check_duration_expected r dur, check_duration_timeout r dur,
                                   check_duration_order r dur]))
      else [])"
    by (rule duration_kind_messages [OF t9 assms(1,2)])
  show ?thesis unfolding k ra f by simp
qed


text \<open>
  Claim C10. A boolean in \<^verbatim>\<open>duration.expected\<close> or \<^verbatim>\<open>duration.timeout\<close> gets no
  message of the integer-type check; \<^verbatim>\<open>True\<close> gets no message of the positivity check
  either; and a duration that is just \<^verbatim>\<open>expected: true\<close> gets no message of the duration
  block at all.
\<close>

theorem booleans_pass_as_integers:
  "(get_nested_value data ''operation.duration.expected'' = (YBool b, True) \<longrightarrow>
      filter (\<lambda>m. take 33 m = ''duration.expected must be integer'')
        (validate_data repr_of exn_str data) = []
      \<and> (b \<longrightarrow> filter (\<lambda>m. take 22 m = ''duration.expected must'')
                  (validate_data repr_of exn_str data) = []))
   \<and> (get_nested_value data ''operation.duration.timeout'' = (YBool b, True) \<longrightarrow>
      filter (\<lambda>m. take 32 m = ''duration.timeout must be integer'')
        (validate_data repr_of exn_str data) = []
      \<and> (b \<longrightarrow> filter (\<lambda>m. take 21 m = ''duration.timeout must'')
                  (validate_data repr_of exn_str data) = []))
   \<and> (get_nested_value data ''operation.duration'' = (YDict [(YStr ''expected'', YBool True)], True) \<longrightarrow>
      filter (\<lambda>m. take 9 m = ''duration.'' \<or> take 9 m = ''Invalid d'')
        (validate_data repr_of exn_str data) = [])"
proof (intro conjI impI)
  assume "get_nested_value data ''operation.duration.expected'' = (YBool b, True)"
  then obtain op dur where *: "dict_lookup data ''operation'' = Some op"
      "dict_lookup op ''duration'' = Some dur" "dict_lookup dur ''expected'' = Some (YBool b)"
    unfolding presence3 by blast
  have m: "filter (\<lambda>m. take 22 m = ''duration.expected must'') (validate_data repr_of exn_str data) =
      (if snd (check_operation_mode repr_of op) = None \<and> snd (check_capability repr_of op) = None
          \<and> snd (check_duration_type repr_of dur) = None \<and> \<not> b
       then [''duration.expected must be positive, got: False''] else [])"
    unfolding expected_messages [OF *, of repr_of exn_str] by simp
  have "filter (\<lambda>m. take 33 m = ''duration.expected must be integer'') (validate_data repr_of exn_str data)
        = filter (\<lambda>m. take 33 m = ''duration.expected must be integer'')
            (filter (\<lambda>m. take 22 m = ''duration.expected must'') (validate_data repr_of exn_str data))"
  proof (rule refine_filter)
    fix m :: string assume "take 33 m = ''duration.expected must be integer''"
    from take_shorter [of 22 33 m, OF _ this] show "take 22 m = ''duration.expected must''" by simp
  qed
  then show "filter (\<lambda>m. take 33 m = ''duration.expected must be integer'')
        (validate_data repr_of exn_str data) = []"
    by (simp add: m)
  show "b \<Longrightarrow> filter (\<lambda>m. take 22 m = ''duration.expected must'')
                  (validate_data repr_of exn_str data) = []"
    by (simp add: m)
next
  assume "get_nested_value data ''operation.duration.timeout'' = (YBool b, True)"
  then obtain op dur where *: "dict_lookup data ''operation'' = Some op"
      "dict_lookup op ''duration'' = Some dur" "dict_lookup dur ''timeout'' = Some (YBool b)"
    unfolding presence3 by blast
  have m: "filter (\<lambda>m. take 21 m = ''duration.timeout must'') (validate_data repr_of exn_str data) =
      (if snd (check_operation_mode repr_of op) = None \<and> snd (check_capability repr_of op) = None
          \<and> snd (check_duration_type repr_of dur) = None
          \<and> snd (check_duration_expected repr_of dur) = None \<and> \<not> b
       then [''duration.timeout must be positive, got: False''] else [])"
    unfolding timeout_messages [OF *, of repr_of exn_str] by simp
  have "filter (\<lambda>m. take 32 m = ''duration.timeout must be integer'') (validate_data repr_of exn_str data)
        = filter (\<lambda>m. take 32 m = ''duration.timeout must be integer'')
            (filter (\<lambda>m. take 21 m = ''duration.timeout must'') (validate_data repr_of exn_str data))"
  proof (rule refine_filter)
    fix m :: string assume "take 32 m = ''duration.timeout must be integer''"
    from take_shorter [of 21 32 m, OF _ this] show "take 21 m = ''duration.timeout must''" by simp
  qed
  then show "filter (\<lambda>m. take 32 m = ''duration.timeout must be integer'')
        (validate_data repr_of exn_str data) = []"
    by (simp add: m)
  show "b \<Longrightarrow> filter (\<lambda>m. take 21 m = ''duration.timeout must'')
                  (validate_data repr_of exn_str data) = []"
    by (simp add: m)
next
  let ?dur = "YDict [(YStr ''expected'', YBool True)]"
  let ?P = "\<lambda>m. take 9 m = ''duration.'' \<or> take 9 m = ''Invalid d''"
  assume "get_nested_value data ''operation.duration'' = (?dur, True)"
  then obtain op where *: "dict_lookup data ''operation'' = Some op"
      "dict_lookup op ''duration'' = Some ?dur"
    unfolding presence2 by blast
  have o: "py_get data ''operation'' (YDict []) = Inr op" "truthy data"
    using *(1) dict_lookup_Some by blast+
  have 0: "filter ?P (check_required data) = []"
    by (rule filter_none) (auto dest: tag_required)
  have 1: "filter ?P (fst (check_operation_mode repr_of op)) = []"
    by (rule filter_none) (auto dest: tag_operation_mode)
  have 2: "filter ?P (fst (check_capability repr_of op)) = []"
    by (rule filter_none) (auto dest: tag_capability)
  have 4: "filter ?P (fst (check_template repr_of op)) = []"
    by (rule filter_none) (auto dest: tag_template)
  have 5: "filter ?P (check_optional_booleans data) = []"
    by (rule filter_none) (auto dest: tag_optional_booleans)
  have 6: "filter ?P (fst (check_parameters op)) = []"
    by (rule filter_none) (auto dest: tag_parameters)
  have 7: "filter ?P (fst (check_rollback op)) = []"
    by (rule filter_none) (auto dest: tag_rollback)
  have 8: "filter ?P (fst (check_validation op)) = []"
    by (rule filter_none) (auto dest: tag_validation)
  have d: "check_duration_type repr_of ?dur = ([], None)"
      "check_duration_expected repr_of ?dur = ([], None)"
      "check_duration_timeout repr_of ?dur = ([], None)"
      "check_duration_order repr_of ?dur = ([], None)"
    by (simp_all add: duration_type_absent duration_expected_present duration_timeout_absent
          duration_order_absent)
  have "list_all (\<lambda>b. filter ?P (fst b) = []) (blocks_in_duration repr_of data op ?dur)"
    unfolding blocks_in_duration_def d using 1 2 4 5 6 7 8 by simp
  then have "filter ?P (closing exn_str (run_all (blocks_in_duration repr_of data op ?dur))) = []"
    by (rule filter_closing_none) simp
  then show "filter ?P (validate_data repr_of exn_str data) = []"
    by (simp only: validate_data_blocks [OF o(2) o(1)] run_all_blocks_in_duration [OF *(2)]
          filter_append 0 append_Nil)
qed

theorem booleans_pass_as_integers_witness:
  "get_nested_value expected_true ''operation.duration.expected'' = (YBool True, True)
   \<and> filter (\<lambda>m. take 22 m = ''duration.expected must'')
        (validate_data example_repr example_exn_str expected_true) = []
   \<and> get_nested_value (with_duration (YInt 3) (YBool False)) ''operation.duration.timeout''
        = (YBool False, True)
   \<and> filter (\<lambda>m. take 32 m = ''duration.timeout must be integer'')
        (validate_data example_repr example_exn_str (with_duration (YInt 3) (YBool False))) = []
   \<and> get_nested_value expected_true ''operation.duration''
        = (YDict [(YStr ''expected'', YBool True)], True)
   \<and> filter (\<lambda>m. take 9 m = ''duration.'' \<or> take 9 m = ''Invalid d'')
        (validate_data example_repr example_exn_str expected_true) = []"
  using booleans_pass_as_integers [of expected_true True example_repr example_exn_str]
    booleans_pass_as_integers [of "with_duration (YInt 3) (YBool False)" False example_repr example_exn_str]
  by (simp add: expected_true_def with_duration_def operation_with_duration_def duration_of_def
        get_nested_value_def)

text \<open>An integer of more than 4300 digits has no text.\<close>

lemma str_nat_nonempty: "0 < length (str_nat n)"
  by (subst str_nat.simps) simp

lemma str_nat_length: "10 ^ k \<le> n \<Longrightarrow> k < length (str_nat n)"
proof (induction k arbitrary: n)
  case 0
  show ?case by (rule str_nat_nonempty)
next
  case (Suc k)
  have "(1::nat) \<le> 10 ^ k" by simp
  moreover from Suc.prems have "10 * 10 ^ k \<le> n" by simp
  ultimately have big: "\<not> n < 10" by linarith
  from Suc.prems have "10 ^ k \<le> n div 10"
    by (simp add: less_eq_div_iff_mult_less_eq mult.commute)
  from Suc.IH [OF this] show ?case
    using big by (subst str_nat.simps) simp
qed

lemma too_long_power:
  assumes "int_max_str_digits \<le> k"
  shows "int_too_long (10 ^ k)" and "int_too_long (- (10 ^ k))"
proof -
  have "k < length (str_nat (10 ^ k))"
    by (rule str_nat_length) simp
  then show "int_too_long (10 ^ k)" and "int_too_long (- (10 ^ k))"
    using assms unfolding int_too_long_def by (simp_all add: nat_power_eq)
qed

lemma big_power:
  assumes "2 \<le> k"
  shows "(50::int) < 10 ^ k" and "(0::int) < 10 ^ k"
proof -
  have "(10::int) ^ 2 \<le> 10 ^ k"
    using assms by (intro power_increasing) simp_all
  then show "(50::int) < 10 ^ k" by simp
  show "(0::int) < 10 ^ k" by simp
qed

lemma huge_too_long: "int_too_long huge" "int_too_long (- huge)"
proof -
  have "int_max_str_digits \<le> 4300" by (simp add: int_max_str_digits_def)
  then show "int_too_long huge" "int_too_long (- huge)"
    unfolding huge_def by (rule too_long_power)+
qed

lemma huge_bounds: "50 < huge" "0 < huge" "0 \<le> huge" "\<not> huge \<le> 0"
proof -
  have k: "(2::nat) \<le> 4300" by simp
  show a: "50 < huge" unfolding huge_def by (rule big_power(1) [OF k])
  show b: "0 < huge" unfolding huge_def by (rule big_power(2) [OF k])
  from b show "0 \<le> huge" "\<not> huge \<le> 0" by simp_all
qed

lemma huge_has_no_text:
  "py_str r (YInt huge) = Inl ValueError" "py_str r (YInt (- huge)) = Inl ValueError"
  by (simp_all add: huge_too_long)

lemma small_has_text: "py_str r (YInt 50) = Inr ''50''"
  by (simp add: int_too_long_def int_max_str_digits_def str_int_def str_nat.simps)

text \<open>Values whose text can be formed, and the checks that then do not raise.\<close>

lemma formed_at:
  "texts_formed r data ps \<Longrightarrow> p \<in> set ps \<Longrightarrow> get_nested_value data p = (v, True) \<Longrightarrow> has_text r v"
  by (auto simp: texts_formed_def list_all_iff)

lemma operation_mode_present:
  "dict_lookup op ''operation_mode'' = Some v \<Longrightarrow>
   check_operation_mode r op =
     (if v \<notin> set (map YStr VALID_OPERATION_MODES)
      then (case py_str r v of
              Inl x \<Rightarrow> ([], Some x)
            | Inr t \<Rightarrow> ([''Invalid operation_mode: '' @ quoted_must_be_one_of t VALID_OPERATION_MODES], None))
      else ([], None))"
  by (simp add: check_operation_mode_def when_true_def with_value_def with_text_def
        dict_lookup_Some split: sum.splits)

lemma capability_present:
  "dict_lookup op ''capability'' = Some v \<Longrightarrow>
   check_capability r op =
     (if v \<notin> set (map YStr VALID_CAPABILITIES)
      then (case py_str r v of
              Inl x \<Rightarrow> ([], Some x)
            | Inr t \<Rightarrow> ([''Invalid capability: '' @ quoted_must_be_one_of t VALID_CAPABILITIES], None))
      else ([], None))"
  by (simp add: check_capability_def when_true_def with_value_def with_text_def
        dict_lookup_Some split: sum.splits)

lemma duration_type_present:
  "dict_lookup dur ''type'' = Some v \<Longrightarrow>
   check_duration_type r dur =
     (if v \<notin> set (map YStr VALID_DURATION_TYPES)
      then (case py_str r v of
              Inl x \<Rightarrow> ([], Some x)
            | Inr t \<Rightarrow> ([''Invalid duration.type: '' @ quoted_must_be_one_of t VALID_DURATION_TYPES], None))
      else ([], None))"
  by (simp add: check_duration_type_def when_true_def with_value_def with_text_def
        dict_lookup_Some split: sum.splits)

lemma template_type_present:
  "dict_lookup op ''template'' = Some tp \<Longrightarrow> dict_lookup tp ''type'' = Some v \<Longrightarrow>
   check_template r op =
     (if v \<notin> set (map YStr VALID_TEMPLATE_TYPES)
      then (case py_str r v of
              Inl x \<Rightarrow> ([], Some x)
            | Inr t \<Rightarrow> ([''Invalid template.type: '' @ quoted_must_be_one_of t VALID_TEMPLATE_TYPES], None))
      else ([], None))"
  by (simp add: check_template_def when_true_def with_value_def with_text_def
        dict_lookup_Some split: sum.splits)

lemma operation_mode_quiet:
  assumes "is_dict op" and "\<And>v. dict_lookup op ''operation_mode'' = Some v \<Longrightarrow> has_text r v"
  shows "snd (check_operation_mode r op) = None"
proof (cases "dict_lookup op ''operation_mode''")
  case None
  then show ?thesis
    by (simp add: check_operation_mode_def when_true_def dict_lookup_None [OF assms(1)])
next
  case (Some v)
  with assms(2) [OF Some] show ?thesis
    by (simp add: operation_mode_present has_text_def split: sum.splits)
qed

lemma capability_quiet:
  assumes "is_dict op" and "\<And>v. dict_lookup op ''capability'' = Some v \<Longrightarrow> has_text r v"
  shows "snd (check_capability r op) = None"
proof (cases "dict_lookup op ''capability''")
  case None
  then show ?thesis
    by (simp add: check_capability_def when_true_def dict_lookup_None [OF assms(1)])
next
  case (Some v)
  with assms(2) [OF Some] show ?thesis
    by (simp add: capability_present has_text_def split: sum.splits)
qed

lemma duration_type_quiet:
  assumes "is_dict dur" and "\<And>v. dict_lookup dur ''type'' = Some v \<Longrightarrow> has_text r v"
  shows "snd (check_duration_type r dur) = None"
proof (cases "dict_lookup dur ''type''")
  case None
  then show ?thesis by (simp add: duration_type_absent [OF assms(1)])
next
  case (Some v)
  with assms(2) [OF Some] show ?thesis
    by (simp add: duration_type_present has_text_def split: sum.splits)
qed

lemma duration_expected_quiet:
  assumes "is_dict dur" and "\<And>v. dict_lookup dur ''expected'' = Some v \<Longrightarrow> has_text r v"
  shows "snd (check_duration_expected r dur) = None"
proof (cases "dict_lookup dur ''expected''")
  case None
  then show ?thesis by (simp add: duration_expected_absent [OF assms(1)])
next
  case (Some v)
  with assms(2) [OF Some] show ?thesis
    by (simp add: duration_expected_present has_text_def split: sum.splits)
qed

lemma duration_timeout_quiet:
  assumes "is_dict dur" and "\<And>v. dict_lookup dur ''timeout'' = Some v \<Longrightarrow> has_text r v"
  shows "snd (check_duration_timeout r dur) = None"
proof (cases "dict_lookup dur ''timeout''")
  case None
  then show ?thesis by (simp add: duration_timeout_absent [OF assms(1)])
next
  case (Some v)
  with assms(2) [OF Some] show ?thesis
    by (simp add: duration_timeout_present has_text_def split: sum.splits)
qed

lemma duration_order_quiet:
  assumes "is_dict dur" and "\<And>v. dict_lookup dur ''expected'' = Some v \<Longrightarrow> has_text r v"
    and "\<And>v. dict_lookup dur ''timeout'' = Some v \<Longrightarrow> has_text r v"
  shows "snd (check_duration_order r dur) = None"
proof (cases "dict_lookup dur ''expected''")
  case None
  then show ?thesis by (simp add: duration_order_absent [OF assms(1)])
next
  case e: (Some e)
  show ?thesis
  proof (cases "dict_lookup dur ''timeout''")
    case None
    then show ?thesis by (simp add: duration_order_absent [OF assms(1)])
  next
    case (Some t)
    with assms(2) [OF e] assms(3) [OF Some] show ?thesis
      by (simp add: duration_order_present [OF e Some] has_text_def split: sum.splits)
  qed
qed

lemma duration_quiet:
  assumes "is_dict op"
    and "\<And>dur. dict_lookup op ''duration'' = Some dur \<Longrightarrow> is_dict dur"
    and "\<And>dur v. dict_lookup op ''duration'' = Some dur \<Longrightarrow> dict_lookup dur ''type'' = Some v \<Longrightarrow> has_text r v"
    and "\<And>dur v. dict_lookup op ''duration'' = Some dur \<Longrightarrow> dict_lookup dur ''expected'' = Some v \<Longrightarrow> has_text r v"
    and "\<And>dur v. dict_lookup op ''duration'' = Some dur \<Longrightarrow> dict_lookup dur ''timeout'' = Some v \<Longrightarrow> has_text r v"
  shows "snd (check_duration r op) = None"
proof (cases "dict_lookup op ''duration''")
  case None
  then show ?thesis
    by (simp add: check_duration_def when_true_def dict_lookup_None [OF assms(1)])
next
  case (Some dur)
  note d = assms(2) [OF Some]
  show ?thesis
    by (simp add: check_duration_run_all [OF Some] snd_andthen
          duration_type_quiet [OF d assms(3) [OF Some]]
          duration_expected_quiet [OF d assms(4) [OF Some]]
          duration_timeout_quiet [OF d assms(5) [OF Some]]
          duration_order_quiet [OF d assms(4) [OF Some] assms(5) [OF Some]])
qed

text \<open>The messages of one check in the returned list.\<close>

lemma block_messages:
  assumes "list_all (\<lambda>b. filter P (fst b) = []) before"
    and "list_all (\<lambda>b. filter P (fst b) = []) after"
    and "\<And>s. \<not> P (''Unexpected error: '' @ s)"
    and "filter P (fst b) = fst b"
  shows "filter P (closing x (run_all (before @ b # after))) =
           (if list_all (\<lambda>b. snd b = None) before then fst b else [])"
proof -
  have "filter P (closing x (run_all (before @ ([b] @ after)))) =
          (if list_all (\<lambda>b. snd b = None) before
           then filter P (closing x (run_all ([b] @ after))) else [])"
    by (rule filter_closing_before [OF assms(1,3)])
  moreover have "filter P (closing x (run_all ([b] @ after))) = filter P (fst (run_all [b]))"
    by (rule filter_closing_prefix [OF assms(2,3)])
  ultimately show ?thesis using assms(4) by (simp add: andthen_unit_right)
qed

lemma operation_mode_messages:
  assumes "dict_lookup data ''operation'' = Some op"
  shows "filter (\<lambda>m. take 9 m = ''Invalid o'') (validate_data r x data) = fst (check_operation_mode r op)"
proof -
  let ?P = "\<lambda>m. take 9 m = ''Invalid o''"
  have o: "py_get data ''operation'' (YDict []) = Inr op" "truthy data"
    using assms(1) dict_lookup_Some by blast+
  have s0: "filter ?P (check_required data) = []"
    by (rule filter_none) (auto dest: tag_required)
  have s2: "filter ?P (fst (check_capability r op)) = []"
    by (rule filter_none) (auto dest: tag_capability)
  have s3: "filter ?P (fst (check_duration r op)) = []"
    by (rule filter_none) (auto dest: tag_duration)
  have s4: "filter ?P (fst (check_template r op)) = []"
    by (rule filter_none) (auto dest: tag_template)
  have s5: "filter ?P (check_optional_booleans data) = []"
    by (rule filter_none) (auto dest: tag_optional_booleans)
  have s6: "filter ?P (fst (check_parameters op)) = []"
    by (rule filter_none) (auto dest: tag_parameters)
  have s7: "filter ?P (fst (check_rollback op)) = []"
    by (rule filter_none) (auto dest: tag_rollback)
  have s8: "filter ?P (fst (check_validation op)) = []"
    by (rule filter_none) (auto dest: tag_validation)
  have mine: "filter ?P (fst (check_operation_mode r op)) = fst (check_operation_mode r op)"
    by (rule filter_all) (auto dest: tag_operation_mode)
  have "filter ?P (closing x (run_all ([check_operation_mode r op] @ [check_capability r op, check_duration r op, check_template r op, (check_optional_booleans data, None), check_parameters op, check_rollback op, check_validation op])))
          = filter ?P (fst (run_all [check_operation_mode r op]))"
    by (rule filter_closing_prefix) (simp_all add: s2 s3 s4 s5 s6 s7 s8)
  then have "filter ?P (closing x (run_all (check_operation_mode r op # [check_capability r op, check_duration r op, check_template r op, (check_optional_booleans data, None), check_parameters op, check_rollback op, check_validation op]))) = fst (check_operation_mode r op)"
    by (simp add: andthen_unit_right mine)
  then show ?thesis
    by (simp add: validate_data_blocks [OF o(2) o(1)] blocks_def s0)
qed

lemma capability_messages:
  assumes "dict_lookup data ''operation'' = Some op"
  shows "filter (\<lambda>m. take 9 m = ''Invalid c'') (validate_data r x data) = (if snd (check_operation_mode r op) = None then fst (check_capability r op) else [])"
proof -
  let ?P = "\<lambda>m. take 9 m = ''Invalid c''"
  have o: "py_get data ''operation'' (YDict []) = Inr op" "truthy data"
    using assms(1) dict_lookup_Some by blast+
  have s0: "filter ?P (check_required data) = []"
    by (rule filter_none) (auto dest: tag_required)
  have s1: "filter ?P (fst (check_operation_mode r op)) = []"
    by (rule filter_none) (auto dest: tag_operation_mode)
  have s3: "filter ?P (fst (check_duration r op)) = []"
    by (rule filter_none) (auto dest: tag_duration)
  have s4: "filter ?P (fst (check_template r op)) = []"
    by (rule filter_none) (auto dest: tag_template)
  have s5: "filter ?P (check_optional_booleans data) = []"
    by (rule filter_none) (auto dest: tag_optional_booleans)
  have s6: "filter ?P (fst (check_parameters op)) = []"
    by (rule filter_none) (auto dest: tag_parameters)
  have s7: "filter ?P (fst (check_rollback op)) = []"
    by (rule filter_none) (auto dest: tag_rollback)
  have s8: "filter ?P (fst (check_validation op)) = []"
    by (rule filter_none) (auto dest: tag_validation)
  have mine: "filter ?P (fst (check_capability r op)) = fst (check_capability r op)"
    by (rule filter_all) (auto dest: tag_capability)
  have "filter ?P (closing x (run_all ([check_operation_mode r op] @ check_capability r op # [check_duration r op, check_template r op, (check_optional_booleans data, None), check_parameters op, check_rollback op, check_validation op])))
          = (if list_all (\<lambda>b. snd b = None) [check_operation_mode r op] then fst (check_capability r op) else [])"
    by (rule block_messages) (simp_all add: s1 s3 s4 s5 s6 s7 s8 mine)
  then show ?thesis
    by (simp add: validate_data_blocks [OF o(2) o(1)] blocks_def s0)
qed

lemma duration_type_messages:
  assumes "dict_lookup data ''operation'' = Some op" and "dict_lookup op ''duration'' = Some dur"
  shows "filter (\<lambda>m. take 9 m = ''Invalid d'') (validate_data r x data) = (if snd (check_operation_mode r op) = None \<and> snd (check_capability r op) = None then fst (check_duration_type r dur) else [])"
proof -
  let ?P = "\<lambda>m. take 9 m = ''Invalid d''"
  have o: "py_get data ''operation'' (YDict []) = Inr op" "truthy data"
    using assms(1) dict_lookup_Some by blast+
  have s0: "filter ?P (check_required data) = []"
    by (rule filter_none) (auto dest: tag_required)
  have s1: "filter ?P (fst (check_operation_mode r op)) = []"
    by (rule filter_none) (auto dest: tag_operation_mode)
  have s2: "filter ?P (fst (check_capability r op)) = []"
    by (rule filter_none) (auto dest: tag_capability)
  have s3a: "filter ?P (fst (check_duration_expected r dur)) = []"
    by (rule filter_none) (auto dest: tag_duration_expected)
  have s3b: "filter ?P (fst (check_duration_timeout r dur)) = []"
    by (rule filter_none) (auto dest: tag_duration_timeout)
  have s3c: "filter ?P (fst (check_duration_order r dur)) = []"
    by (rule filter_none) (auto dest: tag_duration_order)
  have s4: "filter ?P (fst (check_template r op)) = []"
    by (rule filter_none) (auto dest: tag_template)
  have s5: "filter ?P (check_optional_booleans data) = []"
    by (rule filter_none) (auto dest: tag_optional_booleans)
  have s6: "filter ?P (fst (check_parameters op)) = []"
    by (rule filter_none) (auto dest: tag_parameters)
  have s7: "filter ?P (fst (check_rollback op)) = []"
    by (rule filter_none) (auto dest: tag_rollback)
  have s8: "filter ?P (fst (check_validation op)) = []"
    by (rule filter_none) (auto dest: tag_validation)
  have mine: "filter ?P (fst (check_duration_type r dur)) = fst (check_duration_type r dur)"
    by (rule filter_all) (auto dest: tag_duration_type)
  have "filter ?P (closing x (run_all ([check_operation_mode r op, check_capability r op] @ check_duration_type r dur # [check_duration_expected r dur, check_duration_timeout r dur, check_duration_order r dur, check_template r op, (check_optional_booleans data, None), check_parameters op, check_rollback op, check_validation op])))
          = (if list_all (\<lambda>b. snd b = None) [check_operation_mode r op, check_capability r op] then fst (check_duration_type r dur) else [])"
    by (rule block_messages) (simp_all add: s1 s2 s3a s3b s3c s4 s5 s6 s7 s8 mine)
  then show ?thesis
    by (simp add: validate_data_blocks [OF o(2) o(1)] run_all_blocks_in_duration [OF assms(2)] blocks_in_duration_def s0)
qed

lemma template_type_messages:
  assumes "dict_lookup data ''operation'' = Some op"
  shows "filter (\<lambda>m. take 9 m = ''Invalid t'') (validate_data r x data) = (if snd (check_operation_mode r op) = None \<and> snd (check_capability r op) = None \<and> snd (check_duration r op) = None then fst (check_template r op) else [])"
proof -
  let ?P = "\<lambda>m. take 9 m = ''Invalid t''"
  have o: "py_get data ''operation'' (YDict []) = Inr op" "truthy data"
    using assms(1) dict_lookup_Some by blast+
  have s0: "filter ?P (check_required data) = []"
    by (rule filter_none) (auto dest: tag_required)
  have s1: "filter ?P (fst (check_operation_mode r op)) = []"
    by (rule filter_none) (auto dest: tag_operation_mode)
  have s2: "filter ?P (fst (check_capability r op)) = []"
    by (rule filter_none) (auto dest: tag_capability)
  have s3: "filter ?P (fst (check_duration r op)) = []"
    by (rule filter_none) (auto dest: tag_duration)
  have s5: "filter ?P (check_optional_booleans data) = []"
    by (rule filter_none) (auto dest: tag_optional_booleans)
  have s6: "filter ?P (fst (check_parameters op)) = []"
    by (rule filter_none) (auto dest: tag_parameters)
  have s7: "filter ?P (fst (check_rollback op)) = []"
    by (rule filter_none) (auto dest: tag_rollback)
  have s8: "filter ?P (fst (check_validation op)) = []"
    by (rule filter_none) (auto dest: tag_validation)
  have mine: "filter ?P (fst (check_template r op)) = fst (check_template r op)"
    by (rule filter_all) (auto dest: tag_template)
  have "filter ?P (closing x (run_all ([check_operation_mode r op, check_capability r op, check_duration r op] @ check_template r op # [(check_optional_booleans data, None), check_parameters op, check_rollback op, check_validation op])))
          = (if list_all (\<lambda>b. snd b = None) [check_operation_mode r op, check_capability r op, check_duration r op] then fst (check_template r op) else [])"
    by (rule block_messages) (simp_all add: s1 s2 s3 s5 s6 s7 s8 mine)
  then show ?thesis
    by (simp add: validate_data_blocks [OF o(2) o(1)] blocks_def s0)
qed

lemma operation_mode_formed:
  assumes "dict_lookup data ''operation'' = Some op" and "is_dict op"
    and "texts_formed r data ps" and "''operation.operation_mode'' \<in> set ps"
  shows "snd (check_operation_mode r op) = None"
proof (rule operation_mode_quiet [OF assms(2)])
  fix v assume "dict_lookup op ''operation_mode'' = Some v"
  with assms(1) have "get_nested_value data ''operation.operation_mode'' = (v, True)"
    unfolding presence2 by blast
  from formed_at [OF assms(3,4) this] show "has_text r v" .
qed

lemma capability_formed:
  assumes "dict_lookup data ''operation'' = Some op" and "is_dict op"
    and "texts_formed r data ps" and "''operation.capability'' \<in> set ps"
  shows "snd (check_capability r op) = None"
proof (rule capability_quiet [OF assms(2)])
  fix v assume "dict_lookup op ''capability'' = Some v"
  with assms(1) have "get_nested_value data ''operation.capability'' = (v, True)"
    unfolding presence2 by blast
  from formed_at [OF assms(3,4) this] show "has_text r v" .
qed

lemma duration_field_formed:
  assumes "dict_lookup data ''operation'' = Some op" and "dict_lookup op ''duration'' = Some dur"
    and "texts_formed r data ps"
  shows "''operation.duration.type'' \<in> set ps \<Longrightarrow> dict_lookup dur ''type'' = Some v \<Longrightarrow> has_text r v"
    and "''operation.duration.expected'' \<in> set ps \<Longrightarrow> dict_lookup dur ''expected'' = Some v \<Longrightarrow> has_text r v"
    and "''operation.duration.timeout'' \<in> set ps \<Longrightarrow> dict_lookup dur ''timeout'' = Some v \<Longrightarrow> has_text r v"
proof -
  show "''operation.duration.type'' \<in> set ps \<Longrightarrow> dict_lookup dur ''type'' = Some v \<Longrightarrow> has_text r v"
    using assms(1,2) by (intro formed_at [OF assms(3)]) (auto simp: presence3)
  show "''operation.duration.expected'' \<in> set ps \<Longrightarrow> dict_lookup dur ''expected'' = Some v \<Longrightarrow> has_text r v"
    using assms(1,2) by (intro formed_at [OF assms(3)]) (auto simp: presence3)
  show "''operation.duration.timeout'' \<in> set ps \<Longrightarrow> dict_lookup dur ''timeout'' = Some v \<Longrightarrow> has_text r v"
    using assms(1,2) by (intro formed_at [OF assms(3)]) (auto simp: presence3)
qed

text \<open>
  Claim C6 (as amended). The interpolation of a value into a message raises when the value
  has no text (an integer of more than 4300 digits, or a value that holds one), and the body
  stops there. Where \<^verbatim>\<open>duration.expected\<close> is present and the values of \<^verbatim>\<open>operation_mode\<close>,
  \<^verbatim>\<open>capability\<close> and \<^verbatim>\<open>duration.type\<close> have a text: a value that is not an integer gives
  exactly the message naming its type; an integer that is not positive gives exactly the
  positivity message if it has a text, and no message of the rule if it has none; a positive
  integer gives neither. The same holds for \<^verbatim>\<open>duration.timeout\<close>, where the value of
  \<^verbatim>\<open>duration.expected\<close> has a text too. Where both are present, both are integers and all
  five values have a text, \<^verbatim>\<open>timeout < expected\<close> gives exactly one ordering message,
  carrying both texts, and \<^verbatim>\<open>timeout >= expected\<close> gives none. The lists are what the
  validator returns, restricted to the messages of the rule.
\<close>

theorem duration_rules:
  "(get_nested_value data ''operation.duration.expected'' = (e, True)
      \<and> texts_formed repr_of data [''operation.operation_mode'', ''operation.capability'', ''operation.duration.type''] \<longrightarrow>
      (\<not> is_int e \<longrightarrow>
         filter (\<lambda>m. take 22 m = ''duration.expected must'') (validate_data repr_of exn_str data)
           = [''duration.expected must be integer, got: '' @ type_name e]) \<and>
      (is_int e \<and> int_val e \<le> 0 \<longrightarrow>
         filter (\<lambda>m. take 22 m = ''duration.expected must'') (validate_data repr_of exn_str data)
           = (case py_str repr_of e of
                Inr te \<Rightarrow> [''duration.expected must be positive, got: '' @ te]
              | Inl x \<Rightarrow> [])) \<and>
      (is_int e \<and> 0 < int_val e \<longrightarrow>
         filter (\<lambda>m. take 22 m = ''duration.expected must'') (validate_data repr_of exn_str data) = []))
   \<and>
   (get_nested_value data ''operation.duration.timeout'' = (t, True)
      \<and> texts_formed repr_of data [''operation.operation_mode'', ''operation.capability'', ''operation.duration.type'',
          ''operation.duration.expected''] \<longrightarrow>
      (\<not> is_int t \<longrightarrow>
         filter (\<lambda>m. take 21 m = ''duration.timeout must'') (validate_data repr_of exn_str data)
           = [''duration.timeout must be integer, got: '' @ type_name t]) \<and>
      (is_int t \<and> int_val t \<le> 0 \<longrightarrow>
         filter (\<lambda>m. take 21 m = ''duration.timeout must'') (validate_data repr_of exn_str data)
           = (case py_str repr_of t of
                Inr tt \<Rightarrow> [''duration.timeout must be positive, got: '' @ tt]
              | Inl x \<Rightarrow> [])) \<and>
      (is_int t \<and> 0 < int_val t \<longrightarrow>
         filter (\<lambda>m. take 21 m = ''duration.timeout must'') (validate_data repr_of exn_str data) = []))
   \<and>
   (get_nested_value data ''operation.duration.expected'' = (e, True) \<and>
    get_nested_value data ''operation.duration.timeout'' = (t, True) \<and> is_int e \<and> is_int t
      \<and> texts_formed repr_of data [''operation.operation_mode'', ''operation.capability'', ''operation.duration.type'',
          ''operation.duration.expected'', ''operation.duration.timeout''] \<longrightarrow>
      (int_val t < int_val e \<and> py_str repr_of t = Inr tt \<and> py_str repr_of e = Inr te \<longrightarrow>
         filter (\<lambda>m. take 18 m = ''duration.timeout ('') (validate_data repr_of exn_str data)
           = [''duration.timeout ('' @ tt @ '') should be >= duration.expected ('' @ te @ '')'']) \<and>
      (int_val e \<le> int_val t \<longrightarrow>
         filter (\<lambda>m. take 18 m = ''duration.timeout ('') (validate_data repr_of exn_str data) = []))"
proof (intro conjI impI)
  assume a: "get_nested_value data ''operation.duration.expected'' = (e, True)
      \<and> texts_formed repr_of data [''operation.operation_mode'', ''operation.capability'', ''operation.duration.type'']"
  then obtain op dur where *: "dict_lookup data ''operation'' = Some op"
      "dict_lookup op ''duration'' = Some dur" "dict_lookup dur ''expected'' = Some e"
    unfolding presence3 by blast
  have d: "is_dict op" "is_dict dur" using *(2,3) dict_lookup_Some by blast+
  from a have f: "texts_formed repr_of data [''operation.operation_mode'', ''operation.capability'', ''operation.duration.type'']" by simp
  have q: "snd (check_operation_mode repr_of op) = None" "snd (check_capability repr_of op) = None"
      "snd (check_duration_type repr_of dur) = None"
    using operation_mode_formed [OF *(1) d(1) f] capability_formed [OF *(1) d(1) f]
      duration_type_quiet [OF d(2) duration_field_formed(1) [OF *(1,2) f]]
    by simp_all
  note m = expected_messages [OF *, of repr_of exn_str, unfolded q]
  show "\<not> is_int e \<Longrightarrow>
      filter (\<lambda>m. take 22 m = ''duration.expected must'') (validate_data repr_of exn_str data)
        = [''duration.expected must be integer, got: '' @ type_name e]"
    using m by simp
  show "is_int e \<and> int_val e \<le> 0 \<Longrightarrow>
      filter (\<lambda>m. take 22 m = ''duration.expected must'') (validate_data repr_of exn_str data)
        = (case py_str repr_of e of
             Inr te \<Rightarrow> [''duration.expected must be positive, got: '' @ te]
           | Inl x \<Rightarrow> [])"
    using m by (simp split: sum.splits)
  show "is_int e \<and> 0 < int_val e \<Longrightarrow>
      filter (\<lambda>m. take 22 m = ''duration.expected must'') (validate_data repr_of exn_str data) = []"
    using m by simp
next
  assume a: "get_nested_value data ''operation.duration.timeout'' = (t, True)
      \<and> texts_formed repr_of data [''operation.operation_mode'', ''operation.capability'', ''operation.duration.type'',
          ''operation.duration.expected'']"
  then obtain op dur where *: "dict_lookup data ''operation'' = Some op"
      "dict_lookup op ''duration'' = Some dur" "dict_lookup dur ''timeout'' = Some t"
    unfolding presence3 by blast
  have d: "is_dict op" "is_dict dur" using *(2,3) dict_lookup_Some by blast+
  from a have f: "texts_formed repr_of data [''operation.operation_mode'', ''operation.capability'', ''operation.duration.type'',
          ''operation.duration.expected'']" by simp
  have q: "snd (check_operation_mode repr_of op) = None" "snd (check_capability repr_of op) = None"
      "snd (check_duration_type repr_of dur) = None"
      "snd (check_duration_expected repr_of dur) = None"
    using operation_mode_formed [OF *(1) d(1) f] capability_formed [OF *(1) d(1) f]
      duration_type_quiet [OF d(2) duration_field_formed(1) [OF *(1,2) f]]
      duration_expected_quiet [OF d(2) duration_field_formed(2) [OF *(1,2) f]]
    by simp_all
  note m = timeout_messages [OF *, of repr_of exn_str, unfolded q]
  show "\<not> is_int t \<Longrightarrow>
      filter (\<lambda>m. take 21 m = ''duration.timeout must'') (validate_data repr_of exn_str data)
        = [''duration.timeout must be integer, got: '' @ type_name t]"
    using m by simp
  show "is_int t \<and> int_val t \<le> 0 \<Longrightarrow>
      filter (\<lambda>m. take 21 m = ''duration.timeout must'') (validate_data repr_of exn_str data)
        = (case py_str repr_of t of
             Inr tt \<Rightarrow> [''duration.timeout must be positive, got: '' @ tt]
           | Inl x \<Rightarrow> [])"
    using m by (simp split: sum.splits)
  show "is_int t \<and> 0 < int_val t \<Longrightarrow>
      filter (\<lambda>m. take 21 m = ''duration.timeout must'') (validate_data repr_of exn_str data) = []"
    using m by simp
next
  assume a: "get_nested_value data ''operation.duration.expected'' = (e, True) \<and>
    get_nested_value data ''operation.duration.timeout'' = (t, True) \<and> is_int e \<and> is_int t
      \<and> texts_formed repr_of data [''operation.operation_mode'', ''operation.capability'', ''operation.duration.type'',
          ''operation.duration.expected'', ''operation.duration.timeout'']"
  then obtain op dur where *: "dict_lookup data ''operation'' = Some op"
      "dict_lookup op ''duration'' = Some dur" "dict_lookup dur ''expected'' = Some e"
      "dict_lookup dur ''timeout'' = Some t"
    unfolding presence3 by force
  have d: "is_dict op" "is_dict dur" using *(2,3) dict_lookup_Some by blast+
  from a have f: "texts_formed repr_of data [''operation.operation_mode'', ''operation.capability'', ''operation.duration.type'',
          ''operation.duration.expected'', ''operation.duration.timeout'']" by simp
  have q: "snd (check_operation_mode repr_of op) = None" "snd (check_capability repr_of op) = None"
      "snd (check_duration_type repr_of dur) = None"
      "snd (check_duration_expected repr_of dur) = None"
      "snd (check_duration_timeout repr_of dur) = None"
    using operation_mode_formed [OF *(1) d(1) f] capability_formed [OF *(1) d(1) f]
      duration_type_quiet [OF d(2) duration_field_formed(1) [OF *(1,2) f]]
      duration_expected_quiet [OF d(2) duration_field_formed(2) [OF *(1,2) f]]
      duration_timeout_quiet [OF d(2) duration_field_formed(3) [OF *(1,2) f]]
    by simp_all
  note m = order_messages [OF *, of repr_of exn_str, unfolded q]
  show "int_val t < int_val e \<and> py_str repr_of t = Inr tt \<and> py_str repr_of e = Inr te \<Longrightarrow>
      filter (\<lambda>m. take 18 m = ''duration.timeout ('') (validate_data repr_of exn_str data)
        = [''duration.timeout ('' @ tt @ '') should be >= duration.expected ('' @ te @ '')'']"
    using m a by simp
  show "int_val e \<le> int_val t \<Longrightarrow>
      filter (\<lambda>m. take 18 m = ''duration.timeout ('') (validate_data repr_of exn_str data) = []"
    using m a by simp
qed

theorem duration_rules_witness:
  "get_nested_value (with_duration (YInt 100) (YInt 50)) ''operation.duration.expected'' = (YInt 100, True)
   \<and> get_nested_value (with_duration (YInt 100) (YInt 50)) ''operation.duration.timeout'' = (YInt 50, True)
   \<and> texts_formed example_repr (with_duration (YInt 100) (YInt 50))
        [''operation.operation_mode'', ''operation.capability'', ''operation.duration.type'',
          ''operation.duration.expected'', ''operation.duration.timeout'']
   \<and> is_int (YInt 100) \<and> is_int (YInt 50) \<and> int_val (YInt 50) < int_val (YInt 100)
   \<and> py_str example_repr (YInt 50) = Inr ''50'' \<and> py_str example_repr (YInt 100) = Inr ''100''
   \<and> filter (\<lambda>m. take 18 m = ''duration.timeout ('')
        (validate_data example_repr example_exn_str (with_duration (YInt 100) (YInt 50)))
       = [''duration.timeout (50) should be >= duration.expected (100)'']
   \<and> filter (\<lambda>m. take 22 m = ''duration.expected must'')
        (validate_data example_repr example_exn_str (with_duration (YInt 100) (YInt 50))) = []
   \<and> filter (\<lambda>m. take 18 m = ''duration.timeout ('')
        (validate_data example_repr example_exn_str (with_duration (YInt 50) (YInt 100))) = []
   \<and> filter (\<lambda>m. take 22 m = ''duration.expected must'')
        (validate_data example_repr example_exn_str (with_duration (YStr ''soon'') (YInt (- 5))))
       = [''duration.expected must be integer, got: str'']
   \<and> filter (\<lambda>m. take 21 m = ''duration.timeout must'')
        (validate_data example_repr example_exn_str (with_duration (YStr ''soon'') (YInt (- 5))))
       = [''duration.timeout must be positive, got: -5'']"
  using duration_rules [where data = "with_duration (YInt 100) (YInt 50)" and e = "YInt 100"
      and t = "YInt 50" and repr_of = example_repr and exn_str = example_exn_str
      and tt = "''50''" and te = "''100''"]
    duration_rules [where data = "with_duration (YInt 50) (YInt 100)" and e = "YInt 50"
      and t = "YInt 100" and repr_of = example_repr and exn_str = example_exn_str
      and tt = "''100''" and te = "''50''"]
    duration_rules [where data = "with_duration (YStr ''soon'') (YInt (- 5))" and e = "YStr ''soon''"
      and t = "YInt (- 5)" and repr_of = example_repr and exn_str = example_exn_str
      and tt = "''-5''" and te = "''soon''"]
  by (simp add: with_duration_def operation_with_duration_def duration_of_def get_nested_value_def
        texts_formed_def has_text_def int_too_long_def int_max_str_digits_def
        str_int_def str_nat.simps)

text \<open>
  An integer of 4301 digits in \<^verbatim>\<open>duration.expected\<close>: when it is negative the positivity
  rule gives no message, and when it is positive and \<^verbatim>\<open>duration.timeout\<close> is 50 the ordering
  rule gives no message. In both the formatting of the message raises.
\<close>

theorem duration_rules_counterexample:
  "get_nested_value (with_duration (YInt (- huge)) (YInt 50)) ''operation.duration.expected'' = (YInt (- huge), True)
   \<and> is_int (YInt (- huge)) \<and> int_val (YInt (- huge)) \<le> 0
   \<and> filter (\<lambda>m. take 22 m = ''duration.expected must'')
         (validate_data example_repr example_exn_str (with_duration (YInt (- huge)) (YInt 50))) = []
   \<and> get_nested_value (with_duration (YInt huge) (YInt 50)) ''operation.duration.expected'' = (YInt huge, True)
   \<and> get_nested_value (with_duration (YInt huge) (YInt 50)) ''operation.duration.timeout'' = (YInt 50, True)
   \<and> is_int (YInt huge) \<and> is_int (YInt 50) \<and> int_val (YInt 50) < int_val (YInt huge)
   \<and> filter (\<lambda>m. take 18 m = ''duration.timeout ('')
         (validate_data example_repr example_exn_str (with_duration (YInt huge) (YInt 50))) = []"
proof -
  have l: "dict_lookup (with_duration e t) ''operation'' = Some (operation_with_duration e t)"
      "dict_lookup (operation_with_duration e t) ''duration'' = Some (duration_of e t)"
      "dict_lookup (duration_of e t) ''expected'' = Some e"
      "dict_lookup (duration_of e t) ''timeout'' = Some t" for e t
    by (simp_all add: with_duration_def operation_with_duration_def duration_of_def)
  have p: "get_nested_value (with_duration e t) ''operation.duration.expected'' = (e, True)"
      "get_nested_value (with_duration e t) ''operation.duration.timeout'' = (t, True)" for e t
    unfolding presence3 using l by blast+
  have 1: "filter (\<lambda>m. take 22 m = ''duration.expected must'')
         (validate_data example_repr example_exn_str (with_duration (YInt (- huge)) (YInt 50))) = []"
    unfolding expected_messages [OF l(1,2,3)]
    by (simp add: huge_too_long huge_bounds)
  have 2: "filter (\<lambda>m. take 18 m = ''duration.timeout ('')
         (validate_data example_repr example_exn_str (with_duration (YInt huge) (YInt 50))) = []"
    unfolding order_messages [OF l]
    by (simp add: huge_too_long small_has_text huge_bounds)
  show ?thesis using p 1 2 by (simp add: huge_bounds)
qed

text \<open>
  Claim C3 (as amended). The allowed sets have 13, 7, 4 and 6 members. When
  \<^verbatim>\<open>operation_mode\<close> is present, the returned list holds no message of its rule if the value
  is allowed; otherwise it holds exactly one, which quotes the text of the value and lists
  the whole allowed set, if the value has a text, and none if it has no text (the formatting
  raises and the body stops). The same holds for \<^verbatim>\<open>capability\<close>, \<^verbatim>\<open>duration.type\<close> and
  \<^verbatim>\<open>template.type\<close> when the checks before them do not raise: the values that those checks
  may interpolate have a text and, for \<^verbatim>\<open>template.type\<close>, \<^verbatim>\<open>operation.duration\<close> is a mapping if
  it is present.
\<close>

theorem enum_membership:
  "length VALID_OPERATION_MODES = 13 \<and> length VALID_CAPABILITIES = 7
   \<and> length VALID_DURATION_TYPES = 4 \<and> length VALID_TEMPLATE_TYPES = 6
   \<and> (get_nested_value data ''operation.operation_mode'' = (v, True) \<longrightarrow>
        filter (\<lambda>m. take 9 m = ''Invalid o'') (validate_data repr_of exn_str data) =
          (if v \<in> set (map YStr VALID_OPERATION_MODES) then []
           else (case py_str repr_of v of
                   Inr t \<Rightarrow> [''Invalid operation_mode: '' @ [CHR 0x27] @ t @ [CHR 0x27]
                              @ '' (must be one of: '' @ join '', '' VALID_OPERATION_MODES @ '')'']
                 | Inl x \<Rightarrow> [])))
   \<and> (get_nested_value data ''operation.capability'' = (v, True)
        \<and> texts_formed repr_of data [''operation.operation_mode''] \<longrightarrow>
        filter (\<lambda>m. take 9 m = ''Invalid c'') (validate_data repr_of exn_str data) =
          (if v \<in> set (map YStr VALID_CAPABILITIES) then []
           else (case py_str repr_of v of
                   Inr t \<Rightarrow> [''Invalid capability: '' @ [CHR 0x27] @ t @ [CHR 0x27]
                              @ '' (must be one of: '' @ join '', '' VALID_CAPABILITIES @ '')'']
                 | Inl x \<Rightarrow> [])))
   \<and> (get_nested_value data ''operation.duration.type'' = (v, True)
        \<and> texts_formed repr_of data [''operation.operation_mode'', ''operation.capability''] \<longrightarrow>
        filter (\<lambda>m. take 9 m = ''Invalid d'') (validate_data repr_of exn_str data) =
          (if v \<in> set (map YStr VALID_DURATION_TYPES) then []
           else (case py_str repr_of v of
                   Inr t \<Rightarrow> [''Invalid duration.type: '' @ [CHR 0x27] @ t @ [CHR 0x27]
                              @ '' (must be one of: '' @ join '', '' VALID_DURATION_TYPES @ '')'']
                 | Inl x \<Rightarrow> [])))
   \<and> (get_nested_value data ''operation.template.type'' = (v, True)
        \<and> (\<forall>d. get_nested_value data ''operation.duration'' = (d, True) \<longrightarrow> is_dict d)
        \<and> texts_formed repr_of data [''operation.operation_mode'', ''operation.capability'', ''operation.duration.type'',
          ''operation.duration.expected'', ''operation.duration.timeout''] \<longrightarrow>
        filter (\<lambda>m. take 9 m = ''Invalid t'') (validate_data repr_of exn_str data) =
          (if v \<in> set (map YStr VALID_TEMPLATE_TYPES) then []
           else (case py_str repr_of v of
                   Inr t \<Rightarrow> [''Invalid template.type: '' @ [CHR 0x27] @ t @ [CHR 0x27]
                              @ '' (must be one of: '' @ join '', '' VALID_TEMPLATE_TYPES @ '')'']
                 | Inl x \<Rightarrow> [])))"
proof (intro conjI impI)
  show "length VALID_OPERATION_MODES = 13" by (simp add: VALID_OPERATION_MODES_def)
  show "length VALID_CAPABILITIES = 7" by (simp add: VALID_CAPABILITIES_def)
  show "length VALID_DURATION_TYPES = 4" by (simp add: VALID_DURATION_TYPES_def)
  show "length VALID_TEMPLATE_TYPES = 6" by (simp add: VALID_TEMPLATE_TYPES_def)
next
  assume "get_nested_value data ''operation.operation_mode'' = (v, True)"
  then obtain op where *: "dict_lookup data ''operation'' = Some op"
      "dict_lookup op ''operation_mode'' = Some v"
    unfolding presence2 by blast
  show "filter (\<lambda>m. take 9 m = ''Invalid o'') (validate_data repr_of exn_str data) =
          (if v \<in> set (map YStr VALID_OPERATION_MODES) then []
           else (case py_str repr_of v of
                   Inr t \<Rightarrow> [''Invalid operation_mode: '' @ [CHR 0x27] @ t @ [CHR 0x27]
                              @ '' (must be one of: '' @ join '', '' VALID_OPERATION_MODES @ '')'']
                 | Inl x \<Rightarrow> []))"
    unfolding operation_mode_messages [OF *(1)]
    by (simp add: operation_mode_present [OF *(2)] quoted_must_be_one_of_def split: sum.splits)
next
  assume a: "get_nested_value data ''operation.capability'' = (v, True)
        \<and> texts_formed repr_of data [''operation.operation_mode'']"
  then obtain op where *: "dict_lookup data ''operation'' = Some op"
      "dict_lookup op ''capability'' = Some v"
    unfolding presence2 by blast
  have d: "is_dict op" using *(2) dict_lookup_Some by blast
  from a have f: "texts_formed repr_of data [''operation.operation_mode'']" by simp
  have q: "snd (check_operation_mode repr_of op) = None"
    using operation_mode_formed [OF *(1) d f] by simp
  show "filter (\<lambda>m. take 9 m = ''Invalid c'') (validate_data repr_of exn_str data) =
          (if v \<in> set (map YStr VALID_CAPABILITIES) then []
           else (case py_str repr_of v of
                   Inr t \<Rightarrow> [''Invalid capability: '' @ [CHR 0x27] @ t @ [CHR 0x27]
                              @ '' (must be one of: '' @ join '', '' VALID_CAPABILITIES @ '')'']
                 | Inl x \<Rightarrow> []))"
    unfolding capability_messages [OF *(1)]
    by (simp add: q capability_present [OF *(2)] quoted_must_be_one_of_def split: sum.splits)
next
  assume a: "get_nested_value data ''operation.duration.type'' = (v, True)
        \<and> texts_formed repr_of data [''operation.operation_mode'', ''operation.capability'']"
  then obtain op dur where *: "dict_lookup data ''operation'' = Some op"
      "dict_lookup op ''duration'' = Some dur" "dict_lookup dur ''type'' = Some v"
    unfolding presence3 by blast
  have d: "is_dict op" using *(2) dict_lookup_Some by blast
  from a have f: "texts_formed repr_of data [''operation.operation_mode'', ''operation.capability'']" by simp
  have q: "snd (check_operation_mode repr_of op) = None" "snd (check_capability repr_of op) = None"
    using operation_mode_formed [OF *(1) d f] capability_formed [OF *(1) d f] by simp_all
  show "filter (\<lambda>m. take 9 m = ''Invalid d'') (validate_data repr_of exn_str data) =
          (if v \<in> set (map YStr VALID_DURATION_TYPES) then []
           else (case py_str repr_of v of
                   Inr t \<Rightarrow> [''Invalid duration.type: '' @ [CHR 0x27] @ t @ [CHR 0x27]
                              @ '' (must be one of: '' @ join '', '' VALID_DURATION_TYPES @ '')'']
                 | Inl x \<Rightarrow> []))"
    unfolding duration_type_messages [OF *(1,2)]
    by (simp add: q duration_type_present [OF *(3)] quoted_must_be_one_of_def split: sum.splits)
next
  assume a: "get_nested_value data ''operation.template.type'' = (v, True)
        \<and> (\<forall>d. get_nested_value data ''operation.duration'' = (d, True) \<longrightarrow> is_dict d)
        \<and> texts_formed repr_of data [''operation.operation_mode'', ''operation.capability'', ''operation.duration.type'',
          ''operation.duration.expected'', ''operation.duration.timeout'']"
  then obtain op tp where *: "dict_lookup data ''operation'' = Some op"
      "dict_lookup op ''template'' = Some tp" "dict_lookup tp ''type'' = Some v"
    unfolding presence3 by blast
  have d: "is_dict op" using *(2) dict_lookup_Some by blast
  from a have f: "texts_formed repr_of data [''operation.operation_mode'', ''operation.capability'', ''operation.duration.type'',
          ''operation.duration.expected'', ''operation.duration.timeout'']" by simp
  have dd: "is_dict dur" if "dict_lookup op ''duration'' = Some dur" for dur
    using a *(1) that unfolding presence2 by blast
  have q: "snd (check_operation_mode repr_of op) = None" "snd (check_capability repr_of op) = None"
    using operation_mode_formed [OF *(1) d f] capability_formed [OF *(1) d f] by simp_all
  have qd: "snd (check_duration repr_of op) = None"
  proof (rule duration_quiet [OF d dd])
    fix dur w assume o: "dict_lookup op ''duration'' = Some dur"
    show "dict_lookup op ''duration'' = Some dur" by (rule o)
    show "dict_lookup dur ''type'' = Some w \<Longrightarrow> has_text repr_of w"
      using duration_field_formed(1) [OF *(1) o f] by simp
    show "dict_lookup dur ''expected'' = Some w \<Longrightarrow> has_text repr_of w"
      using duration_field_formed(2) [OF *(1) o f] by simp
    show "dict_lookup dur ''timeout'' = Some w \<Longrightarrow> has_text repr_of w"
      using duration_field_formed(3) [OF *(1) o f] by simp
  qed
  show "filter (\<lambda>m. take 9 m = ''Invalid t'') (validate_data repr_of exn_str data) =
          (if v \<in> set (map YStr VALID_TEMPLATE_TYPES) then []
           else (case py_str repr_of v of
                   Inr t \<Rightarrow> [''Invalid template.type: '' @ [CHR 0x27] @ t @ [CHR 0x27]
                              @ '' (must be one of: '' @ join '', '' VALID_TEMPLATE_TYPES @ '')'']
                 | Inl x \<Rightarrow> []))"
    unfolding template_type_messages [OF *(1)]
    by (simp add: q qd template_type_present [OF *(2,3)] quoted_must_be_one_of_def split: sum.splits)
qed

theorem enum_membership_witness:
  "get_nested_value enum_example ''operation.operation_mode'' = (YStr ''bogus'', True)
   \<and> filter (\<lambda>m. take 9 m = ''Invalid o'') (validate_data example_repr example_exn_str enum_example)
       = [''Invalid operation_mode: 'bogus' (must be one of: create, configure, validate, update, delete, read, modify, adopt, assign, verify, add, remove, drain)'']
   \<and> get_nested_value enum_example ''operation.capability'' = (YStr ''networking'', True)
   \<and> filter (\<lambda>m. take 9 m = ''Invalid c'') (validate_data example_repr example_exn_str enum_example) = []
   \<and> get_nested_value enum_example ''operation.duration.type'' = (YStr ''SLOW'', True)
   \<and> filter (\<lambda>m. take 9 m = ''Invalid d'') (validate_data example_repr example_exn_str enum_example)
       = [''Invalid duration.type: 'SLOW' (must be one of: FAST, NORMAL, WAIT, LONG)'']
   \<and> get_nested_value enum_example ''operation.template.type'' = (YInt 7, True)
   \<and> get_nested_value enum_example ''operation.duration'' = (YDict [(YStr ''type'', YStr ''SLOW'')], True)
   \<and> is_dict (YDict [(YStr ''type'', YStr ''SLOW'')])
   \<and> texts_formed example_repr enum_example
        [''operation.operation_mode'', ''operation.capability'', ''operation.duration.type'',
          ''operation.duration.expected'', ''operation.duration.timeout'']
   \<and> filter (\<lambda>m. take 9 m = ''Invalid t'') (validate_data example_repr example_exn_str enum_example)
       = [''Invalid template.type: '7' (must be one of: powershell-local, powershell-remote, powershell-vm-command, azure-cli, bash, bash-script)'']"
  using enum_membership [of enum_example "YStr ''bogus''" example_repr example_exn_str]
    enum_membership [of enum_example "YStr ''networking''" example_repr example_exn_str]
    enum_membership [of enum_example "YStr ''SLOW''" example_repr example_exn_str]
    enum_membership [of enum_example "YInt 7" example_repr example_exn_str]
  by (simp add: enum_example_def enum_operation_def enum_duration_def enum_template_def
        get_nested_value_def VALID_OPERATION_MODES_def
        VALID_CAPABILITIES_def VALID_DURATION_TYPES_def VALID_TEMPLATE_TYPES_def
        texts_formed_def has_text_def int_too_long_def int_max_str_digits_def
        str_int_def str_nat.simps)

text \<open>
  The operation modes are not 16. With \<^verbatim>\<open>duration: 5\<close> the duration block raises before the
  template block is reached, so that an invalid \<^verbatim>\<open>template.type\<close> gets no message of its
  rule. And an \<^verbatim>\<open>operation_mode\<close> that is an integer of 4301 digits gets no message of its
  rule: the formatting of the message raises.
\<close>

theorem enum_membership_counterexample:
  "length VALID_OPERATION_MODES \<noteq> 16
   \<and> get_nested_value broken_duration ''operation.template.type'' = (YStr ''bogus'', True)
   \<and> YStr ''bogus'' \<notin> set (map YStr VALID_TEMPLATE_TYPES)
   \<and> filter (\<lambda>m. take 9 m = ''Invalid t'')
        (validate_data example_repr example_exn_str broken_duration) = []
   \<and> last (validate_data example_repr example_exn_str broken_duration) = ''Unexpected error: TypeError''
   \<and> get_nested_value huge_mode ''operation.operation_mode'' = (YInt huge, True)
   \<and> YInt huge \<notin> set (map YStr VALID_OPERATION_MODES)
   \<and> filter (\<lambda>m. take 9 m = ''Invalid o'')
        (validate_data example_repr example_exn_str huge_mode) = []"
proof -
  have 1: "length VALID_OPERATION_MODES \<noteq> 16
   \<and> get_nested_value broken_duration ''operation.template.type'' = (YStr ''bogus'', True)
   \<and> YStr ''bogus'' \<notin> set (map YStr VALID_TEMPLATE_TYPES)
   \<and> filter (\<lambda>m. take 9 m = ''Invalid t'')
        (validate_data example_repr example_exn_str broken_duration) = []
   \<and> last (validate_data example_repr example_exn_str broken_duration) = ''Unexpected error: TypeError''"
    by code_simp
  have l: "dict_lookup huge_mode ''operation'' = Some huge_mode_operation"
      "dict_lookup huge_mode_operation ''operation_mode'' = Some (YInt huge)"
    by (simp_all add: huge_mode_def huge_mode_operation_def)
  have 2: "get_nested_value huge_mode ''operation.operation_mode'' = (YInt huge, True)"
    unfolding presence2 using l by blast
  have 3: "YInt huge \<notin> set (map YStr VALID_OPERATION_MODES)" by auto
  have 4: "filter (\<lambda>m. take 9 m = ''Invalid o'')
        (validate_data example_repr example_exn_str huge_mode) = []"
    unfolding operation_mode_messages [OF l(1)]
    by (simp add: operation_mode_present [OF l(2)] huge_too_long)
  from 1 2 3 4 show ?thesis by blast
qed

section \<open>Properties of the dependency validator\<close>



text \<open>
  Claim C8, at the input \<open>requires_five\<close>: the schema script finds no violation and exits
  with 0; the dependency script finds no missing reference and no cycle, but
  \<^verbatim>\<open>build_dependency_stats\<close> raises \<^verbatim>\<open>TypeError\<close>, which nothing catches, and the process
  ends with status 1.
\<close>

theorem exit_status_requires_five:
  "schema_main example_repr example_exn_str requires_five = Exit 0
   \<and> load_operations (all_files requires_five)
       = Some [(''a'', \<lparr>op_file = ''capabilities/x/operations/a.yaml'', name = YStr ''A'',
                         requires = YInt 5, capability = YStr ''compute''\<rparr>)]
   \<and> find_missing_dependencies (the (load_operations (all_files requires_five))) = Inr []
   \<and> detect_circular_dependencies room (the (load_operations (all_files requires_five))) = Inr []
   \<and> build_dependency_stats (the (load_operations (all_files requires_five))) = Inl TypeError
   \<and> dependencies_main room requires_five = Some (Uncaught TypeError)
   \<and> exit_status (Uncaught TypeError) = 1"
  by code_simp









lemma skipped_resolves_falsy: "skipped_shape e \<Longrightarrow> \<not> truthy (resolve_dep e)"
  by (cases e) (auto simp: resolve_dep_def split: if_splits)

lemma missing_in_requires_filter:
  "missing_in_requires ids op_id f (filter (\<lambda>e. \<not> skipped_shape e) deps) acc
   = missing_in_requires ids op_id f deps acc"
proof (induction deps arbitrary: acc)
  case Nil
  then show ?case by simp
next
  case (Cons e deps)
  show ?case
  proof (cases "skipped_shape e")
    case True
    then show ?thesis using Cons skipped_resolves_falsy [OF True] by simp
  next
    case False
    then show ?thesis using Cons by (simp add: Let_def split: sum.splits)
  qed
qed

lemma without_skipped_Cons:
  "without_skipped ((k, d) # ops) =
     (k, d\<lparr>requires := without_skipped_entries (requires d)\<rparr>) # without_skipped ops"
  by (simp add: without_skipped_def)

lemma without_skipped_Nil: "without_skipped [] = []"
  by (simp add: without_skipped_def)

lemma keys_without_skipped: "map fst (without_skipped ops) = map fst ops"
  by (induction ops) (auto simp: without_skipped_def)

lemma length_without_skipped: "length (without_skipped ops) = length ops"
  by (simp add: without_skipped_def)

lemma missing_in_operations_without_skipped:
  "missing_in_operations ids (without_skipped ops) acc = missing_in_operations ids ops acc"
proof (induction ops arbitrary: acc)
  case Nil
  then show ?case by (simp add: without_skipped_Nil)
next
  case (Cons a ops)
  obtain k d where a: "a = (k, d)" by (cases a)
  show ?case
    using Cons.IH
    by (cases "requires d")
       (simp_all add: a without_skipped_Cons without_skipped_entries_def
          missing_in_requires_filter split: sum.splits)
qed

lemma map_of_without_skipped:
  "map_of (without_skipped ops) node =
     map_option (\<lambda>d. d\<lparr>requires := without_skipped_entries (requires d)\<rparr>) (map_of ops node)"
  by (induction ops) (auto simp: without_skipped_def)

lemma requires_of_without_skipped:
  "requires_of (without_skipped ops) node = without_skipped_entries (requires_of ops node)"
  by (cases "map_of ops node")
     (simp_all add: requires_of_def map_of_without_skipped without_skipped_entries_def)

lemma dfs_requires_without_skipped:
  assumes "\<And>deeper node s. room = Suc deeper \<Longrightarrow>
             dfs deeper (without_skipped ops) node s = dfs deeper ops node s"
  shows "dfs_requires room (without_skipped ops) (filter (\<lambda>e. \<not> skipped_shape e) deps) s
         = dfs_requires room ops deps s"
proof (induction deps arbitrary: s)
  case Nil
  then show ?case by simp
next
  case (Cons e deps)
  show ?case
  proof (cases "skipped_shape e")
    case True
    then show ?thesis using Cons skipped_resolves_falsy [OF True] by simp
  next
    case False
    then show ?thesis
      using Cons assms
      by (cases room)
         (simp_all add: keys_without_skipped Let_def split: sum.splits yaml.splits)
  qed
qed

lemma dfs_without_skipped:
  "dfs room (without_skipped ops) node s = dfs room ops node s"
proof (induction room arbitrary: node s)
  case 0
  have "dfs_requires 0 (without_skipped ops) (filter (\<lambda>e. \<not> skipped_shape e) deps) s
         = dfs_requires 0 ops deps s" for deps s
    by (rule dfs_requires_without_skipped) simp
  then show ?case
    by (cases "requires_of ops node")
       (simp_all add: dfs.simps requires_of_without_skipped without_skipped_entries_def Let_def)
next
  case (Suc room)
  have "dfs_requires (Suc room) (without_skipped ops) (filter (\<lambda>e. \<not> skipped_shape e) deps) s
         = dfs_requires (Suc room) ops deps s" for deps s
    by (rule dfs_requires_without_skipped) (auto simp: Suc)
  then show ?case
    by (cases "requires_of ops node")
       (simp_all add: dfs.simps requires_of_without_skipped without_skipped_entries_def Let_def)
qed

lemma search_roots_without_skipped:
  "search_roots room (without_skipped ops) ids t = search_roots room ops ids t"
  by (induction ids arbitrary: t)
     (simp_all add: dfs_without_skipped split: sum.splits)

text \<open>
  Claim C2 (as amended). A \<^verbatim>\<open>requires\<close> entry that is a mapping without an \<^verbatim>\<open>operation\<close>
  field, or a falsy value that is not a string, is treated as absent: removing all such
  entries changes neither the findings of the Reference Checker nor the result of the
  Cycle Detector, nor the nodes the traversal enters, whatever room the recursion limit
  leaves.
\<close>

theorem unresolvable_entries_ignored:
  "find_missing_dependencies (without_skipped operations) = find_missing_dependencies operations
   \<and> detect_circular_dependencies room (without_skipped operations)
       = detect_circular_dependencies room operations
   \<and> traverse room (without_skipped operations) = traverse room operations"
  by (simp add: find_missing_dependencies_def detect_circular_dependencies_def traverse_def
      keys_without_skipped length_without_skipped missing_in_operations_without_skipped
      search_roots_without_skipped)

theorem unresolvable_entries_ignored_witness:
  "without_skipped mixed_entries =
     [(''A'', \<lparr>op_file = ''a.yaml'', name = YStr ''A'', requires = YList [YStr ''B'', YStr ''Z''],
               capability = YStr ''compute''\<rparr>),
      (''B'', \<lparr>op_file = ''b.yaml'', name = YStr ''B'', requires = YList [YStr ''A''],
               capability = YStr ''compute''\<rparr>)]
   \<and> find_missing_dependencies mixed_entries = Inr [(''A'', YStr ''Z'', ''a.yaml'')]
   \<and> detect_circular_dependencies 5 mixed_entries = Inr [[''A'', ''B'', ''A'']]"
proof -
  have a: "without_skipped mixed_entries =
     [(''A'', \<lparr>op_file = ''a.yaml'', name = YStr ''A'', requires = YList [YStr ''B'', YStr ''Z''],
               capability = YStr ''compute''\<rparr>),
      (''B'', \<lparr>op_file = ''b.yaml'', name = YStr ''B'', requires = YList [YStr ''A''],
               capability = YStr ''compute''\<rparr>)]"
    by code_simp
  have b: "find_missing_dependencies (without_skipped mixed_entries) = Inr [(''A'', YStr ''Z'', ''a.yaml'')]"
    unfolding a by code_simp
  have c: "detect_circular_dependencies 5 (without_skipped mixed_entries) = Inr [[''A'', ''B'', ''A'']]"
    unfolding a by code_simp
  show ?thesis
    using unresolvable_entries_ignored [of mixed_entries 5] a b c by simp
qed

text \<open>
  A number is neither a bare id string nor a mapping, yet the Reference Checker reports it
  as a missing dependency; a non-empty sequence makes both checks raise \<^verbatim>\<open>TypeError\<close>.
\<close>

theorem unresolvable_entries_ignored_counterexample:
  "find_missing_dependencies number_entry = Inr [(''A'', YInt 5, ''a.yaml'')]
   \<and> find_missing_dependencies sequence_entry = Inl TypeError
   \<and> detect_circular_dependencies 5 sequence_entry = Inl TypeError"
  by code_simp





lemma search_inv_record_cycle [simp]:
  "search_inv ops (record_cycle d s) = search_inv ops s"
  "visited (record_cycle d s) = visited s"
  "visited_global (record_cycle d s) = visited_global s"
  "entered (record_cycle d s) = entered s"
  "rec_stack (record_cycle d s) = rec_stack s"
  by (simp_all add: search_inv_def record_cycle_def Let_def)























end
